theory Spec2Isabelle
  imports Complex_Main "HOL-Library.Sublist"
begin

section \<open>Data model of \<open>pptxService.ts\<close>\<close>

text \<open>
  The interfaces of the service become records. JavaScript strings are modelled as
  \<open>string\<close>; the case conversions below act on the ASCII letters, which is all the
  colour and extension handling of the service depends on. Optional fields are
  \<open>option\<close>s. The opaque \<open>effectScheme\<close> of \<open>ThemeData\<close> is always the empty
  object in the source and is left out.
\<close>

record ColorScheme =
  background1 :: string
  text1 :: string
  background2 :: string
  text2 :: string
  accent1 :: string
  accent2 :: string
  accent3 :: string
  accent4 :: string
  accent5 :: string
  accent6 :: string
  hyperlink :: string
  followedHyperlink :: string

record FontScheme =
  majorFont :: string
  minorFont :: string

record ThemeData =
  colorScheme :: ColorScheme
  fontScheme :: FontScheme

record ExtractedImage =
  image_id :: string
  originalName :: string
  filePath :: string
  fileType :: string
  slideContext :: "string option"
  description :: "string option"

record TemplateAnalysis =
  slideCount :: nat
  imageCount :: nat
  layoutCount :: nat
  colors :: "string list"
  fonts :: "string list"
  masterLayouts :: "string list"
  extractedImages :: "ExtractedImage list"
  themeData :: ThemeData

record SlideData =
  slideNumber :: nat
  title :: string
  content :: string
  layout :: string
  speakerNotes :: "string option"
  imagePrompt :: "string option"

record PresentationData =
  pres_title :: string
  slides :: "SlideData list"
  totalSlides :: nat
  estimatedDuration :: string

text \<open>The options bag; only \<open>generateNotes\<close> is read by the service.\<close>

record GenOptions =
  generateNotes :: "string option"

section \<open>JavaScript string operations\<close>

definition lowerLetters :: string where
  "lowerLetters = ''abcdefghijklmnopqrstuvwxyz''"

definition upperLetters :: string where
  "upperLetters = ''ABCDEFGHIJKLMNOPQRSTUVWXYZ''"

definition toUpperChar :: "char \<Rightarrow> char" where
  "toUpperChar c = (case map_of (zip lowerLetters upperLetters) c of Some u \<Rightarrow> u | None \<Rightarrow> c)"

definition toLowerChar :: "char \<Rightarrow> char" where
  "toLowerChar c = (case map_of (zip upperLetters lowerLetters) c of Some l \<Rightarrow> l | None \<Rightarrow> c)"

definition toUpperCase :: "string \<Rightarrow> string" where
  "toUpperCase s = map toUpperChar s"

definition toLowerCase :: "string \<Rightarrow> string" where
  "toLowerCase s = map toLowerChar s"

text \<open>
  \<open>s.replace(c, '')\<close> with a one-character string pattern: the first occurrence of
  the character is removed, wherever it is; the rest of the string is kept.
\<close>

fun removeFirst :: "char \<Rightarrow> string \<Rightarrow> string" where
  "removeFirst c [] = []"
| "removeFirst c (x # xs) = (if x = c then xs else x # removeFirst c xs)"

definition stripHash :: "string \<Rightarrow> string" where
  "stripHash s = removeFirst (CHR ''#'') s"

text \<open>
  \<open>s.split(sep)\<close> for a non-empty separator: the string is scanned from the left,
  pieces end at each occurrence of the separator, and occurrences do not overlap.
  The result is never empty: a string without the separator is its own single piece.
\<close>

function js_split_from :: "string \<Rightarrow> string \<Rightarrow> string \<Rightarrow> string list" where
  "js_split_from sep cur s =
     (if s = [] then [cur]
      else if sep \<noteq> [] \<and> prefix sep s then cur # js_split_from sep [] (drop (length sep) s)
      else js_split_from sep (cur @ [hd s]) (tl s))"
  by pat_completeness auto
termination
  by (relation "measure (\<lambda>(sep, cur, s). length s)") auto

declare js_split_from.simps [simp del]

definition js_split :: "string \<Rightarrow> string \<Rightarrow> string list" where
  "js_split sep s = js_split_from sep [] s"

text \<open>\<open>parts.join(sep)\<close>.\<close>

fun js_join :: "string \<Rightarrow> string list \<Rightarrow> string" where
  "js_join sep [] = []"
| "js_join sep [p] = p"
| "js_join sep (p # q # ps) = p @ sep @ js_join sep (q # ps)"

text \<open>\<open>xs.slice(0, k)\<close> and \<open>xs.slice(k)\<close> for \<open>0 \<le> k\<close>.\<close>

definition slice_to :: "nat \<Rightarrow> 'a list \<Rightarrow> 'a list" where
  "slice_to k xs = take k xs"

definition slice_from :: "nat \<Rightarrow> 'a list \<Rightarrow> 'a list" where
  "slice_from k xs = drop k xs"

text \<open>\<open>Math.ceil(n / 2)\<close> for a list length \<open>n\<close>.\<close>

definition ceil_half :: "nat \<Rightarrow> nat" where
  "ceil_half n = nat \<lceil>real n / 2\<rceil>"

definition paraSep :: string where
  "paraSep = [CHR 0x0A, CHR 0x0A]"

section \<open>Style context\<close>

record StyleContext =
  titleColor :: string
  textColor :: string
  accentColor :: string
  titleFont :: string
  bodyFont :: string

definition getStyleContext :: "TemplateAnalysis option \<Rightarrow> StyleContext" where
  "getStyleContext templateAnalysis =
     (case templateAnalysis of
        None \<Rightarrow>
          \<lparr>titleColor = ''2563EB'', textColor = ''1F2937'', accentColor = ''64748B'',
           titleFont = ''Calibri'', bodyFont = ''Calibri''\<rparr>
      | Some a \<Rightarrow>
          (let cols = colorScheme (themeData a); fnts = fontScheme (themeData a) in
           \<lparr>titleColor = stripHash (accent1 cols),
            textColor = stripHash (text1 cols),
            accentColor = stripHash (accent2 cols),
            titleFont = majorFont fnts,
            bodyFont = minorFont fnts\<rparr>))"

text \<open>
  The reading of "a leading \<open>#\<close> stripped" used by the specification: a string that
  starts with \<open>#\<close> loses that character, any other string is unchanged.
\<close>

definition stripLeadingHash :: "string \<Rightarrow> string" where
  "stripLeadingHash s = (case s of [] \<Rightarrow> [] | c # cs \<Rightarrow> if c = CHR ''#'' then cs else s)"

text \<open>
  Colours as the analyser writes them: a \<open>#\<close> followed by the value. Every slot that
  \<open>analyzeTemplate\<close> fills has this shape: a default, or the result of \<open>extractColorValue\<close>.
\<close>

definition hashed :: "string \<Rightarrow> bool" where
  "hashed s = (case s of [] \<Rightarrow> False | c # cs \<Rightarrow> c = CHR ''#'')"

section \<open>Slides and their elements\<close>

text \<open>
  The presentation library (pptxgenjs) is outside the repository. A slide is modelled by
  what the service tells the library: its background colour, the \<open>addText\<close> and
  \<open>addImage\<close> calls in the order they are made, and the notes. Option objects keep the
  source's keys; a key a call does not pass is \<open>None\<close>.
\<close>

record TextOpts =
  tx :: rat
  ty :: rat
  tw :: rat
  th :: rat
  fontSize :: nat
  fontFace :: string
  color :: string
  bold :: "bool option"
  align :: "string option"
  valign :: "string option"
  fill_color :: "string option"
  border :: "(nat \<times> string) option"

record ImageOpts =
  img_path :: string
  ix :: rat
  iy :: rat
  iw :: rat
  ih :: rat

datatype Element = TextEl string TextOpts | ImageEl ImageOpts

record Slide =
  background :: string
  elements :: "Element list"
  slide_notes :: "string option"

definition addText :: "string \<Rightarrow> TextOpts \<Rightarrow> Slide \<Rightarrow> Slide" where
  "addText t opts slide = slide\<lparr>elements := elements slide @ [TextEl t opts]\<rparr>"

text \<open>
  \<open>slide.addImage\<close> is called inside a \<open>try\<close>; whether the library call throws for a
  path is a parameter of the model (\<open>addImageThrows\<close>), and \<open>None\<close> is the exception.
\<close>

definition addImage :: "(string \<Rightarrow> bool) \<Rightarrow> ImageOpts \<Rightarrow> Slide \<Rightarrow> Slide option" where
  "addImage addImageThrows opts slide =
     (if addImageThrows (img_path opts) then None
      else Some (slide\<lparr>elements := elements slide @ [ImageEl opts]\<rparr>))"

definition addNotes :: "string \<Rightarrow> Slide \<Rightarrow> Slide" where
  "addNotes n slide = slide\<lparr>slide_notes := Some n\<rparr>"

section \<open>Slide layout builders\<close>

definition createTitleSlide :: "Slide \<Rightarrow> SlideData \<Rightarrow> StyleContext \<Rightarrow> Slide" where
  "createTitleSlide slide slideData styleContext =
     (let s1 = addText (title slideData)
            \<lparr>tx = 0.5, ty = 1.5, tw = 9, th = 1.8, fontSize = 40,
             fontFace = titleFont styleContext, color = titleColor styleContext,
             bold = Some True, align = Some ''center'', valign = Some ''middle'',
             fill_color = None, border = None\<rparr> slide
      in if content slideData \<noteq> [] then
           addText (content slideData)
            \<lparr>tx = 0.5, ty = 3.5, tw = 9, th = 1.2, fontSize = 20,
             fontFace = bodyFont styleContext, color = accentColor styleContext,
             bold = None, align = Some ''center'', valign = Some ''middle'',
             fill_color = None, border = None\<rparr> s1
         else s1)"

definition createContentSlide :: "Slide \<Rightarrow> SlideData \<Rightarrow> StyleContext \<Rightarrow> Slide" where
  "createContentSlide slide slideData styleContext =
     (let s1 = addText (title slideData)
            \<lparr>tx = 0.5, ty = 0.3, tw = 9, th = 1, fontSize = 32,
             fontFace = titleFont styleContext, color = titleColor styleContext,
             bold = Some True, align = Some ''left'', valign = None,
             fill_color = None, border = None\<rparr> slide
      in addText (content slideData)
            \<lparr>tx = 0.5, ty = 1.5, tw = 9, th = 3.5, fontSize = 18,
             fontFace = bodyFont styleContext, color = textColor styleContext,
             bold = None, align = Some ''left'', valign = Some ''top'',
             fill_color = None, border = None\<rparr> s1)"

definition leftContent :: "string \<Rightarrow> string" where
  "leftContent c =
     (let contentParts = js_split paraSep c
      in js_join paraSep (slice_to (ceil_half (length contentParts)) contentParts))"

definition rightContent :: "string \<Rightarrow> string" where
  "rightContent c =
     (let contentParts = js_split paraSep c
      in js_join paraSep (slice_from (ceil_half (length contentParts)) contentParts))"

definition columnOpts :: "rat \<Rightarrow> StyleContext \<Rightarrow> TextOpts" where
  "columnOpts x styleContext =
     \<lparr>tx = x, ty = 1.5, tw = 4.2, th = 3.5, fontSize = 18,
      fontFace = bodyFont styleContext, color = textColor styleContext,
      bold = None, align = Some ''left'', valign = Some ''top'',
      fill_color = None, border = None\<rparr>"

definition createTwoColumnSlide :: "Slide \<Rightarrow> SlideData \<Rightarrow> StyleContext \<Rightarrow> Slide" where
  "createTwoColumnSlide slide slideData styleContext =
     (let s1 = addText (title slideData)
            \<lparr>tx = 0.5, ty = 0.3, tw = 9, th = 1, fontSize = 32,
             fontFace = titleFont styleContext, color = accentColor styleContext,
             bold = Some True, align = Some ''left'', valign = None,
             fill_color = None, border = None\<rparr> slide;
          s2 = addText (leftContent (content slideData)) (columnOpts 0.5 styleContext) s1
      in addText (rightContent (content slideData)) (columnOpts 5.2 styleContext) s2)"

definition selectImageForReuse :: "TemplateAnalysis option \<Rightarrow> ExtractedImage option" where
  "selectImageForReuse templateAnalysis =
     (case templateAnalysis of
        None \<Rightarrow> None
      | Some a \<Rightarrow> (case extractedImages a of [] \<Rightarrow> None | img # rest \<Rightarrow> Some img))"

definition placeholderText :: string where
  "placeholderText =
     [CHR 0xC3, CHR 0xB0, CHR 0xC5, CHR 0xB8, CHR 0xE2, CHR 0x80, CHR 0x9C, CHR 0xC5, CHR 0xA0]
     @ '' Template Image'' @ [CHR 0x0A] @ ''Placeholder''"

definition addImagePlaceholder :: "Slide \<Rightarrow> StyleContext \<Rightarrow> Slide" where
  "addImagePlaceholder slide styleContext =
     addText placeholderText
       \<lparr>tx = 5.5, ty = 2, tw = 4, th = 2.5, fontSize = 14,
        fontFace = bodyFont styleContext, color = accentColor styleContext,
        bold = None, align = Some ''center'', valign = Some ''middle'',
        fill_color = Some ''F3F4F6'', border = Some (1, accentColor styleContext)\<rparr> slide"

text \<open>
  The disk, as far as the service looks at it: a path holds a file with its bytes, a
  directory, or nothing. \<open>fs.existsSync\<close> is true for files and directories.
\<close>

datatype fsnode = File "nat list" | Dir

type_synonym disk = "string \<Rightarrow> fsnode option"

definition existsSync :: "disk \<Rightarrow> string \<Rightarrow> bool" where
  "existsSync d p = (d p \<noteq> None)"

definition createImageContentSlide ::
  "(string \<Rightarrow> bool) \<Rightarrow> disk \<Rightarrow> Slide \<Rightarrow> SlideData \<Rightarrow> StyleContext \<Rightarrow> TemplateAnalysis option \<Rightarrow> Slide" where
  "createImageContentSlide addImageThrows d slide slideData styleContext templateAnalysis =
     (let s1 = addText (title slideData)
            \<lparr>tx = 0.5, ty = 0.5, tw = 9, th = 0.8, fontSize = 28,
             fontFace = titleFont styleContext, color = titleColor styleContext,
             bold = Some True, align = None, valign = None,
             fill_color = None, border = None\<rparr> slide;
          s2 = addText (content slideData)
            \<lparr>tx = 0.5, ty = 1.5, tw = 4.5, th = 3.5, fontSize = 16,
             fontFace = bodyFont styleContext, color = textColor styleContext,
             bold = None, align = None, valign = Some ''top'',
             fill_color = None, border = None\<rparr> s1
      in case selectImageForReuse templateAnalysis of
           None \<Rightarrow> addImagePlaceholder s2 styleContext
         | Some reusedImage \<Rightarrow>
             if existsSync d (filePath reusedImage) then
               (case addImage addImageThrows
                       \<lparr>img_path = filePath reusedImage, ix = 5.5, iy = 2, iw = 4, ih = 2.5\<rparr> s2 of
                  Some s3 \<Rightarrow> s3
                | None \<Rightarrow> addImagePlaceholder s2 styleContext)
             else addImagePlaceholder s2 styleContext)"

definition createConclusionSlide :: "Slide \<Rightarrow> SlideData \<Rightarrow> StyleContext \<Rightarrow> Slide" where
  "createConclusionSlide slide slideData styleContext =
     (let s1 = addText (title slideData)
            \<lparr>tx = 1, ty = 1.5, tw = 8, th = 1, fontSize = 32,
             fontFace = titleFont styleContext, color = titleColor styleContext,
             bold = Some True, align = Some ''center'', valign = None,
             fill_color = None, border = None\<rparr> slide
      in addText (content slideData)
            \<lparr>tx = 1, ty = 2.8, tw = 8, th = 2, fontSize = 18,
             fontFace = bodyFont styleContext, color = textColor styleContext,
             bold = None, align = Some ''center'', valign = Some ''middle'',
             fill_color = None, border = None\<rparr> s1)"

definition bgColorOf :: "TemplateAnalysis option \<Rightarrow> string" where
  "bgColorOf templateAnalysis =
     (case templateAnalysis of
        None \<Rightarrow> ''FFFFFF''
      | Some a \<Rightarrow>
          (let c = stripHash (background1 (colorScheme (themeData a)))
           in if c = [] then ''FFFFFF'' else c))"

definition notesWanted :: "GenOptions option \<Rightarrow> bool" where
  "notesWanted options =
     (case options of None \<Rightarrow> True | Some opt \<Rightarrow> generateNotes opt \<noteq> Some ''none'')"

definition createSlide ::
  "(string \<Rightarrow> bool) \<Rightarrow> disk \<Rightarrow> SlideData \<Rightarrow> GenOptions option \<Rightarrow> TemplateAnalysis option \<Rightarrow> Slide" where
  "createSlide addImageThrows d slideData options templateAnalysis =
     (let slide = \<lparr>background = bgColorOf templateAnalysis, elements = [], slide_notes = None\<rparr>;
          styleContext = getStyleContext templateAnalysis;
          built =
            (if layout slideData = ''title_slide'' then createTitleSlide slide slideData styleContext
             else if layout slideData = ''content'' then createContentSlide slide slideData styleContext
             else if layout slideData = ''two_column'' then createTwoColumnSlide slide slideData styleContext
             else if layout slideData = ''image_content'' then
               createImageContentSlide addImageThrows d slide slideData styleContext templateAnalysis
             else if layout slideData = ''conclusion'' then createConclusionSlide slide slideData styleContext
             else createContentSlide slide slideData styleContext)
      in case speakerNotes slideData of
           None \<Rightarrow> built
         | Some n \<Rightarrow> if n \<noteq> [] \<and> notesWanted options then addNotes n built else built)"

section \<open>The template container\<close>

text \<open>
  A template is a zip archive read with JSZip, which is outside the repository. The
  model keeps what the service uses of a loaded archive: the entries of \<open>zip.files\<close>
  in listing order, each a directory or a file, and for a file its content, or \<open>None\<close>
  when reading the content fails (the promise of \<open>file.async\<close> is rejected).
  \<open>zip.file(name)\<close> answers with the entry of that name unless it is a directory.
  The names are the keys of an object, so no name occurs twice.
\<close>

record ZipEntry =
  entry_dir :: bool
  entry_data :: "nat list option"

type_synonym Zip = "(string \<times> ZipEntry) list"

definition zip_keys :: "Zip \<Rightarrow> string list" where
  "zip_keys z = map fst z"

definition zip_file :: "Zip \<Rightarrow> string \<Rightarrow> ZipEntry option" where
  "zip_file z name =
     (case map_of z name of
        None \<Rightarrow> None
      | Some e \<Rightarrow> if entry_dir e then None else Some e)"

definition startsWith :: "string \<Rightarrow> string \<Rightarrow> bool" where
  "startsWith s p = prefix p s"

definition endsWith :: "string \<Rightarrow> string \<Rightarrow> bool" where
  "endsWith s p = prefix (rev p) (rev s)"

text \<open>\<open>s.includes(p)\<close>: \<open>p\<close> occurs in \<open>s\<close> as a contiguous piece.\<close>

fun js_includes :: "string \<Rightarrow> string \<Rightarrow> bool" where
  "js_includes [] p = (p = [])"
| "js_includes (c # cs) p = (prefix p (c # cs) \<or> js_includes cs p)"

definition isDigit :: "char \<Rightarrow> bool" where
  "isDigit c = (c \<in> set ''0123456789'')"

definition isHexDigit :: "char \<Rightarrow> bool" where
  "isHexDigit c = (c \<in> set ''0123456789ABCDEFabcdef'')"

definition isUpperHexDigit :: "char \<Rightarrow> bool" where
  "isUpperHexDigit c = (c \<in> set ''0123456789ABCDEF'')"

text \<open>\<open>/^[0-9A-Fa-f]{6}$/.test(v)\<close>\<close>

definition hex6 :: "string \<Rightarrow> bool" where
  "hex6 v = (length v = 6 \<and> list_all isHexDigit v)"

text \<open>The pattern \<open>^#[0-9A-F]{6}$\<close> of the specification.\<close>

definition hexColor :: "string \<Rightarrow> bool" where
  "hexColor s =
     (case s of [] \<Rightarrow> False
      | c # ds \<Rightarrow> c = CHR ''#'' \<and> length ds = 6 \<and> list_all isUpperHexDigit ds)"

section \<open>Parsed theme XML\<close>

text \<open>
  The theme part is parsed by xml2js (outside the repository) with its default options.
  An element without attributes and without child elements becomes a string (its text,
  empty for an empty element); any other element becomes an object whose key \<open>$\<close>
  holds the attributes, when there are any, and whose other keys are the names of the
  child elements, each holding the array of the children of that name. The parse result
  is an object with one key, the name of the root element.
\<close>

datatype xval = XStr string | XObj "(string \<times> string) list" "(string \<times> xval list) list"

type_synonym xroot = "string \<times> xval"

text \<open>\<open>x[k]\<close> for an element name \<open>k\<close>; \<open>None\<close> is \<open>undefined\<close>.\<close>

fun kid :: "xval \<Rightarrow> string \<Rightarrow> xval list option" where
  "kid (XStr s) k = None"
| "kid (XObj a ks) k = map_of ks k"

text \<open>\<open>x[k1] || x.k2\<close>; an array is truthy.\<close>

definition kid2 :: "xval \<Rightarrow> string \<Rightarrow> string \<Rightarrow> xval list option" where
  "kid2 x k1 k2 = (case kid x k1 of Some xs \<Rightarrow> Some xs | None \<Rightarrow> kid x k2)"

text \<open>\<open>xs[0]\<close>\<close>

fun first :: "'a list \<Rightarrow> 'a option" where
  "first [] = None"
| "first (x # xs) = Some x"

text \<open>\<open>x.$\<close>: the attributes, when the element has any.\<close>

fun attrs :: "xval \<Rightarrow> (string \<times> string) list option" where
  "attrs (XStr s) = None"
| "attrs (XObj a ks) = (if a = [] then None else Some a)"

fun truthy :: "xval \<Rightarrow> bool" where
  "truthy (XStr s) = (s \<noteq> [])"
| "truthy (XObj a ks) = True"

text \<open>\<open>Object.keys(x)\<close> that can contain \<open>Clr\<close>: the names of the child elements.\<close>

fun childKeys :: "xval \<Rightarrow> string list" where
  "childKeys (XStr s) = []"
| "childKeys (XObj a ks) = map fst ks"

text \<open>
  One resolver step of \<open>extractColorValue\<close> either returns a colour, falls through to the
  next step, or throws (a \<open>TypeError\<close>, caught by the \<open>try\<close> of the function).
\<close>

datatype step = Return string | Next | Throws

text \<open>
  The steps for \<open>srgbClr\<close> (attribute \<open>val\<close>) and \<open>sysClr\<close> (attribute \<open>lastClr\<close>):
  \<open>const v = arr[0]?.$ || arr[0]; if (v?.[att]) return `#${v[att].toUpperCase()}`\<close>.
  When the first child has no attributes but a child element named like the attribute,
  \<open>v[att]\<close> is an array, and \<open>toUpperCase\<close> is not a function of it.
\<close>

definition attrStep :: "xval list option \<Rightarrow> string \<Rightarrow> step" where
  "attrStep arr att =
     (case arr of
        None \<Rightarrow> Next
      | Some xs \<Rightarrow>
          (case first xs of
             None \<Rightarrow> Next
           | Some x \<Rightarrow>
               (case attrs x of
                  Some a \<Rightarrow>
                    (case map_of a att of
                       Some v \<Rightarrow> if v \<noteq> [] then Return (CHR ''#'' # toUpperCase v) else Next
                     | None \<Rightarrow> Next)
                | None \<Rightarrow> (case kid x att of Some ys \<Rightarrow> Throws | None \<Rightarrow> Next))))"

definition directStep :: "xval \<Rightarrow> step" where
  "directStep element =
     (case attrs element of
        Some a \<Rightarrow>
          (case map_of a ''val'' of
             Some v \<Rightarrow> if v \<noteq> [] then Return (CHR ''#'' # toUpperCase v) else Next
           | None \<Rightarrow> Next)
      | None \<Rightarrow> Next)"

fun nestedLoop :: "xval \<Rightarrow> string list \<Rightarrow> string option" where
  "nestedLoop element [] = None"
| "nestedLoop element (key # keys) =
     (let hit =
        (if js_includes key ''Clr'' then
           (case kid element key of
              Some xs \<Rightarrow>
                (case first xs of
                   Some x \<Rightarrow>
                     (if truthy x then
                        (case attrs x of
                           Some a \<Rightarrow>
                             (case map_of a ''val'' of
                                Some colorVal \<Rightarrow>
                                  if colorVal \<noteq> [] \<and> hex6 colorVal
                                  then Some (CHR ''#'' # toUpperCase colorVal) else None
                              | None \<Rightarrow> None)
                         | None \<Rightarrow> None)
                      else None)
                 | None \<Rightarrow> None)
            | None \<Rightarrow> None)
         else None)
      in case hit of Some c \<Rightarrow> Some c | None \<Rightarrow> nestedLoop element keys)"

definition extractColorValue :: "xval list option \<Rightarrow> string option" where
  "extractColorValue colorElement =
     (case colorElement of
        None \<Rightarrow> None
      | Some xs \<Rightarrow>
          (case first xs of
             None \<Rightarrow> None
           | Some element \<Rightarrow>
               if \<not> truthy element then None
               else
                 (case attrStep (kid2 element ''a:srgbClr'' ''srgbClr'') ''val'' of
                    Return c \<Rightarrow> Some c
                  | Throws \<Rightarrow> None
                  | Next \<Rightarrow>
                      (case attrStep (kid2 element ''a:sysClr'' ''sysClr'') ''lastClr'' of
                         Return c \<Rightarrow> Some c
                       | Throws \<Rightarrow> None
                       | Next \<Rightarrow>
                           (case directStep element of
                              Return c \<Rightarrow> Some c
                            | Throws \<Rightarrow> None
                            | Next \<Rightarrow> nestedLoop element (childKeys element))))))"

text \<open>\<open>extractColorValue(scheme[k1] || scheme.k2) || dflt\<close>\<close>

definition slot :: "xval \<Rightarrow> string \<Rightarrow> string \<Rightarrow> string \<Rightarrow> string" where
  "slot scheme k1 k2 dflt =
     (case extractColorValue (kid2 scheme k1 k2) of Some c \<Rightarrow> c | None \<Rightarrow> dflt)"

definition defaultColorScheme :: ColorScheme where
  "defaultColorScheme =
     \<lparr>background1 = ''#FFFFFF'', text1 = ''#000000'', background2 = ''#E7E6E6'',
      text2 = ''#44546A'', accent1 = ''#5B9BD5'', accent2 = ''#70AD47'', accent3 = ''#A5A5A5'',
      accent4 = ''#FFC000'', accent5 = ''#4472C4'', accent6 = ''#C5504B'',
      hyperlink = ''#0066CC'', followedHyperlink = ''#954F72''\<rparr>"

definition getDefaultThemeData :: ThemeData where
  "getDefaultThemeData =
     \<lparr>colorScheme = defaultColorScheme,
      fontScheme = \<lparr>majorFont = ''Calibri'', minorFont = ''Calibri''\<rparr>\<rparr>"

text \<open>
  \<open>themeData['a:theme'] || themeData.theme\<close>: \<open>None\<close> is \<open>undefined\<close>, on which the
  next property access throws.
\<close>

definition themeOf :: "xroot \<Rightarrow> xval option" where
  "themeOf r =
     (if fst r = ''a:theme'' \<and> truthy (snd r) then Some (snd r)
      else if fst r = ''theme'' then Some (snd r)
      else None)"

text \<open>
  The navigation shared by both scheme parsers:
  \<open>themeElements?.[0]?.[k1] || themeElements?.[0]?.k2\<close>, then the first element of
  that array when it is truthy.
\<close>

definition schemeOf :: "xval \<Rightarrow> string \<Rightarrow> string \<Rightarrow> xval option" where
  "schemeOf theme k1 k2 =
     (case kid2 theme ''a:themeElements'' ''themeElements'' of
        None \<Rightarrow> None
      | Some tes \<Rightarrow>
          (case first tes of
             None \<Rightarrow> None
           | Some te \<Rightarrow>
               (case kid2 te k1 k2 of
                  None \<Rightarrow> None
                | Some arr \<Rightarrow>
                    (case first arr of
                       None \<Rightarrow> None
                     | Some scheme \<Rightarrow> if truthy scheme then Some scheme else None))))"

definition colorsOfScheme :: "xval \<Rightarrow> ColorScheme" where
  "colorsOfScheme scheme =
     \<lparr>background1 = slot scheme ''a:lt1'' ''lt1'' ''#FFFFFF'',
      text1 = slot scheme ''a:dk1'' ''dk1'' ''#000000'',
      background2 = slot scheme ''a:lt2'' ''lt2'' ''#E7E6E6'',
      text2 = slot scheme ''a:dk2'' ''dk2'' ''#44546A'',
      accent1 = slot scheme ''a:accent1'' ''accent1'' ''#5B9BD5'',
      accent2 = slot scheme ''a:accent2'' ''accent2'' ''#70AD47'',
      accent3 = slot scheme ''a:accent3'' ''accent3'' ''#A5A5A5'',
      accent4 = slot scheme ''a:accent4'' ''accent4'' ''#FFC000'',
      accent5 = slot scheme ''a:accent5'' ''accent5'' ''#4472C4'',
      accent6 = slot scheme ''a:accent6'' ''accent6'' ''#C5504B'',
      hyperlink = slot scheme ''a:hlink'' ''hlink'' ''#0066CC'',
      followedHyperlink = slot scheme ''a:folHlink'' ''folHlink'' ''#954F72''\<rparr>"

definition parseColorScheme :: "xroot \<Rightarrow> ColorScheme" where
  "parseColorScheme parsed =
     (case themeOf parsed of
        None \<Rightarrow> colorScheme getDefaultThemeData
      | Some theme \<Rightarrow>
          (case schemeOf theme ''a:clrScheme'' ''clrScheme'' of
             None \<Rightarrow> colorScheme getDefaultThemeData
           | Some scheme \<Rightarrow> colorsOfScheme scheme))"

text \<open>
  \<open>extractFontName\<close>. When the first \<open>latin\<close> child has no attributes but a child
  element named \<open>typeface\<close>, the source returns that array of children where the
  interface declares a string; the model keeps the declared type and records the array by
  its JavaScript string conversion.
\<close>

fun xvalToString :: "xval \<Rightarrow> string" where
  "xvalToString (XStr s) = s"
| "xvalToString (XObj a ks) = ''[object Object]''"

definition arrayToString :: "xval list \<Rightarrow> string" where
  "arrayToString xs = js_join '','' (map xvalToString xs)"

definition extractFontName :: "xval list option \<Rightarrow> string option" where
  "extractFontName fontElement =
     (case fontElement of
        None \<Rightarrow> None
      | Some xs \<Rightarrow>
          (case first xs of
             None \<Rightarrow> None
           | Some element \<Rightarrow>
               if \<not> truthy element then None
               else
                 (case kid2 element ''a:latin'' ''latin'' of
                    None \<Rightarrow> None
                  | Some latin \<Rightarrow>
                      (case first latin of
                         None \<Rightarrow> None
                       | Some x \<Rightarrow>
                           (case attrs x of
                              Some a \<Rightarrow>
                                (case map_of a ''typeface'' of
                                   Some v \<Rightarrow> if v \<noteq> [] then Some v else None
                                 | None \<Rightarrow> None)
                            | None \<Rightarrow>
                                (case kid x ''typeface'' of
                                   Some ys \<Rightarrow> Some (arrayToString ys)
                                 | None \<Rightarrow> None))))))"

definition fontSlot :: "xval \<Rightarrow> string \<Rightarrow> string \<Rightarrow> string" where
  "fontSlot scheme k1 k2 =
     (case extractFontName (kid2 scheme k1 k2) of Some f \<Rightarrow> f | None \<Rightarrow> ''Calibri'')"

definition parseFontScheme :: "xroot \<Rightarrow> FontScheme" where
  "parseFontScheme parsed =
     (case themeOf parsed of
        None \<Rightarrow> \<lparr>majorFont = ''Calibri'', minorFont = ''Calibri''\<rparr>
      | Some theme \<Rightarrow>
          (case schemeOf theme ''a:fontScheme'' ''fontScheme'' of
             None \<Rightarrow> \<lparr>majorFont = ''Calibri'', minorFont = ''Calibri''\<rparr>
           | Some scheme \<Rightarrow>
               \<lparr>majorFont = fontSlot scheme ''a:majorFont'' ''majorFont'',
                minorFont = fontSlot scheme ''a:minorFont'' ''minorFont''\<rparr>))"

text \<open>
  \<open>extractThemeData\<close>. Reading the theme part as a string and parsing it with xml2js is
  the parameter \<open>parseXml\<close>, from the bytes of the part to the parse result; \<open>None\<close> is a
  rejected promise. Every failure ends in the \<open>catch\<close> that returns the default theme.
\<close>

definition themePart :: string where
  "themePart = ''ppt/theme/theme1.xml''"

definition extractThemeData :: "(nat list \<Rightarrow> xroot option) \<Rightarrow> Zip \<Rightarrow> ThemeData" where
  "extractThemeData parseXml z =
     (case zip_file z themePart of
        None \<Rightarrow> getDefaultThemeData
      | Some themeFile \<Rightarrow>
          (case entry_data themeFile of
             None \<Rightarrow> getDefaultThemeData
           | Some themeXml \<Rightarrow>
               (case parseXml themeXml of
                  None \<Rightarrow> getDefaultThemeData
                | Some parsed \<Rightarrow>
                    \<lparr>colorScheme = parseColorScheme parsed,
                     fontScheme = parseFontScheme parsed\<rparr>)))"

text \<open>
  The colour-scheme element the extractor reaches in a template, if it reaches one: the
  theme part is there, can be read and parsed, and the navigation of
  \<open>parseColorScheme\<close> finds a \<open>clrScheme\<close>.
\<close>

definition clrSchemeOfTemplate :: "(nat list \<Rightarrow> xroot option) \<Rightarrow> Zip \<Rightarrow> xval option" where
  "clrSchemeOfTemplate parseXml z =
     (case zip_file z themePart of
        None \<Rightarrow> None
      | Some themeFile \<Rightarrow>
          (case entry_data themeFile of
             None \<Rightarrow> None
           | Some themeXml \<Rightarrow>
               (case parseXml themeXml of
                  None \<Rightarrow> None
                | Some parsed \<Rightarrow>
                    (case themeOf parsed of
                       None \<Rightarrow> None
                     | Some theme \<Rightarrow> schemeOf theme ''a:clrScheme'' ''clrScheme''))))"

definition parseAs :: "xroot \<Rightarrow> nat list \<Rightarrow> xroot option" where
  "parseAs r b = Some r"

text \<open>All twelve slots of a colour scheme satisfy a predicate.\<close>

definition allSlots :: "(string \<Rightarrow> bool) \<Rightarrow> ColorScheme \<Rightarrow> bool" where
  "allSlots P cs =
     (P (background1 cs) \<and> P (text1 cs) \<and> P (background2 cs) \<and> P (text2 cs) \<and>
      P (accent1 cs) \<and> P (accent2 cs) \<and> P (accent3 cs) \<and> P (accent4 cs) \<and>
      P (accent5 cs) \<and> P (accent6 cs) \<and> P (hyperlink cs) \<and> P (followedHyperlink cs))"






text \<open>
  A theme whose \<open>dk1\<close> slot carries a three-digit \<open>srgbClr\<close>, as xml2js parses
  \<^verbatim>\<open><a:theme><a:themeElements><a:clrScheme name="Office"><a:dk1><a:srgbClr val="FFF"/></a:dk1></a:clrScheme></a:themeElements></a:theme>\<close>,
  and one with a six-digit lower-case value in its place.
\<close>

definition themeWith :: "string \<Rightarrow> xroot" where
  "themeWith v =
     (''a:theme'',
      XObj [] [(''a:themeElements'',
        [XObj [] [(''a:clrScheme'',
          [XObj [(''name'', ''Office'')]
             [(''a:dk1'', [XObj [] [(''a:srgbClr'', [XObj [(''val'', v)] []])]])]])]])])"

definition shortTheme :: xroot where
  "shortTheme = themeWith ''FFF''"


section \<open>Paths\<close>

text \<open>
  POSIX \<open>path.basename\<close>: trailing slashes are dropped, then the piece after the last
  slash is taken.
\<close>

definition basename :: "string \<Rightarrow> string" where
  "basename p = rev (takeWhile (\<lambda>c. c \<noteq> CHR ''/'') (dropWhile (\<lambda>c. c = CHR ''/'') (rev p)))"

text \<open>
  \<open>path.extname\<close> of a file name: from the last dot on; empty when there is no dot,
  when the only dot is the first character, and for the name \<open>..\<close>.
\<close>

definition extname :: "string \<Rightarrow> string" where
  "extname f =
     (let r = takeWhile (\<lambda>c. c \<noteq> CHR ''.'') (rev f) in
      if length r = length f then []
      else
        (let i = length f - length r - 1 in
         if i = 0 \<or> f = ''..'' then [] else drop i f))"

text \<open>
  \<open>path.join(dir, name)\<close> for a normalised directory and a single path segment other
  than \<open>.\<close> and \<open>..\<close>, which is what the service joins.
\<close>

definition pathJoin :: "string \<Rightarrow> string \<Rightarrow> string" where
  "pathJoin dir name = dir @ ''/'' @ name"

section \<open>Environment and world\<close>

text \<open>
  What the service takes from outside the repository, as parameters: the XML parser, the
  archive loader (\<open>None\<close> is the rejected promise for bytes that are not an archive),
  the stream of results of \<open>randomUUID()\<close>, the paths at which a write to disk throws,
  the image paths at which the presentation library throws, and the configured uploads
  directory. The world is the disk and the number of UUIDs drawn so far.
\<close>

record Env =
  xmlParser :: "nat list \<Rightarrow> xroot option"
  loadAsync :: "nat list \<Rightarrow> Zip option"
  randomUUID :: "nat \<Rightarrow> string"
  writeFails :: "string \<Rightarrow> bool"
  imageThrows :: "string \<Rightarrow> bool"
  uploadsDir :: string

record World =
  files :: disk
  uuidCount :: nat

definition imagesDir :: "Env \<Rightarrow> string" where
  "imagesDir env = pathJoin (uploadsDir env) ''extracted_images''"

section \<open>Media extractor\<close>

definition imageExts :: "string list" where
  "imageExts = [''png'', ''jpg'', ''jpeg'', ''gif'', ''emf'', ''wmf'']"

text \<open>
  \<open>fileName.startsWith('ppt/media/') && /\.(png|jpg|jpeg|gif|emf|wmf)$/i.test(fileName)\<close>;
  the \<open>i\<close> flag folds the case of the ASCII letters.
\<close>

definition isMediaFile :: "string \<Rightarrow> bool" where
  "isMediaFile fileName =
     (startsWith fileName ''ppt/media/'' \<and>
      list_ex (\<lambda>e. endsWith (toLowerCase fileName) (CHR ''.'' # e)) imageExts)"

definition mediaFiles :: "Zip \<Rightarrow> string list" where
  "mediaFiles z = filter isMediaFile (zip_keys z)"

definition extractedPath :: "Env \<Rightarrow> string \<Rightarrow> string \<Rightarrow> string" where
  "extractedPath env imageId mediaPath =
     pathJoin (imagesDir env) (imageId @ ''_'' @ basename mediaPath)"

definition imageRecord :: "Env \<Rightarrow> string \<Rightarrow> string \<Rightarrow> string \<Rightarrow> ExtractedImage" where
  "imageRecord env templatePath imageId mediaPath =
     \<lparr>image_id = imageId,
      originalName = basename mediaPath,
      filePath = extractedPath env imageId mediaPath,
      fileType = toLowerCase (drop 1 (extname (basename mediaPath))),
      slideContext = Some ''template'',
      description = Some (''Extracted from '' @ basename templatePath)\<rparr>"

text \<open>
  The loop of \<open>extractImages\<close>. \<open>None\<close> is an exception leaving the loop: a rejected
  read of a part or a throwing \<open>writeFileSync\<close>. The world at that moment is kept: files
  written before stay on disk.
\<close>

fun extractLoop ::
  "Env \<Rightarrow> Zip \<Rightarrow> string \<Rightarrow> string list \<Rightarrow> ExtractedImage list \<Rightarrow> World
   \<Rightarrow> ExtractedImage list option \<times> World" where
  "extractLoop env z templatePath [] extracted w = (Some extracted, w)"
| "extractLoop env z templatePath (mediaPath # rest) extracted w =
     (case zip_file z mediaPath of
        None \<Rightarrow> extractLoop env z templatePath rest extracted w
      | Some file \<Rightarrow>
          (case entry_data file of
             None \<Rightarrow> (None, w)
           | Some imageBuffer \<Rightarrow>
               (let imageId = randomUUID env (uuidCount w);
                    w1 = w\<lparr>uuidCount := Suc (uuidCount w)\<rparr>;
                    target = extractedPath env imageId mediaPath
                in if writeFails env target then (None, w1)
                   else extractLoop env z templatePath rest
                          (extracted @ [imageRecord env templatePath imageId mediaPath])
                          (w1\<lparr>files := (files w1)(target \<mapsto> File imageBuffer)\<rparr>))))"

definition extractImages ::
  "Env \<Rightarrow> Zip \<Rightarrow> string \<Rightarrow> World \<Rightarrow> ExtractedImage list \<times> World" where
  "extractImages env z templatePath w =
     (case extractLoop env z templatePath (mediaFiles z) [] w of
        (Some extracted, w') \<Rightarrow> (extracted, w')
      | (None, w') \<Rightarrow> ([], w'))"

section \<open>Structure analyser\<close>

text \<open>\<open>/^pre\d+suf$/\<close>: the prefix, one or more digits, the suffix.\<close>

definition numbered :: "string \<Rightarrow> string \<Rightarrow> string \<Rightarrow> bool" where
  "numbered pre suf f =
     (startsWith f pre \<and> endsWith f suf \<and> length pre + length suf < length f \<and>
      list_all isDigit (take (length f - length pre - length suf) (drop (length pre) f)))"

definition defaultLayouts :: "string list" where
  "defaultLayouts = [''Title Slide'', ''Content'', ''Two Column'', ''Image & Content'', ''Section Header'']"

record SlideStructure =
  st_slideCount :: nat
  st_layoutCount :: nat
  st_masterLayouts :: "string list"

text \<open>
  The master part is only read: the five names are pushed when the read succeeds and,
  from the inner \<open>catch\<close>, when it fails; without a master part the list stays empty.
\<close>

definition analyzeSlideStructure :: "Zip \<Rightarrow> SlideStructure" where
  "analyzeSlideStructure z =
     \<lparr>st_slideCount = length (filter (numbered ''ppt/slides/slide'' ''.xml'') (zip_keys z)),
      st_layoutCount =
        length (filter (numbered ''ppt/slideLayouts/slideLayout'' ''.xml'') (zip_keys z)),
      st_masterLayouts =
        (case zip_file z ''ppt/slideMasters/slideMaster1.xml'' of
           None \<Rightarrow> []
         | Some masterFile \<Rightarrow> defaultLayouts)\<rparr>"

section \<open>Template analysis aggregator\<close>

definition baselineAnalysis :: TemplateAnalysis where
  "baselineAnalysis =
     \<lparr>slideCount = 12, imageCount = 0, layoutCount = 5,
      colors = [''#2563EB'', ''#64748B'', ''#10B981'', ''#F59E0B''],
      fonts = [''Calibri'', ''Arial''],
      masterLayouts = [''Title Slide'', ''Content'', ''Two Column'', ''Image & Content'', ''Section Header''],
      extractedImages = [],
      themeData =
        \<lparr>colorScheme =
           \<lparr>background1 = ''#FFFFFF'', text1 = ''#000000'', background2 = ''#E7E6E6'',
            text2 = ''#44546A'', accent1 = ''#2563EB'', accent2 = ''#64748B'',
            accent3 = ''#10B981'', accent4 = ''#F59E0B'', accent5 = ''#8B5CF6'',
            accent6 = ''#EF4444'', hyperlink = ''#0066CC'', followedHyperlink = ''#954F72''\<rparr>,
         fontScheme = \<lparr>majorFont = ''Calibri'', minorFont = ''Calibri''\<rparr>\<rparr>\<rparr>"

text \<open>\<open>Object.values(colorScheme)\<close>, in the order the keys are written.\<close>

definition colorValues :: "ColorScheme \<Rightarrow> string list" where
  "colorValues cs =
     [background1 cs, text1 cs, background2 cs, text2 cs, accent1 cs, accent2 cs,
      accent3 cs, accent4 cs, accent5 cs, accent6 cs, hyperlink cs, followedHyperlink cs]"

definition known :: "string \<Rightarrow> bool" where
  "known c = (c \<noteq> [] \<and> c \<noteq> ''unknown'')"

text \<open>
  \<open>analyzeTemplate\<close>. A missing file, a path that cannot be read as a file and bytes
  the archive loader rejects all end in the \<open>catch\<close> that returns the baseline analysis.
  Of the three extractions run together only the media extractor touches the world.
\<close>

definition analyzeTemplate :: "Env \<Rightarrow> string \<Rightarrow> World \<Rightarrow> TemplateAnalysis \<times> World" where
  "analyzeTemplate env path w =
     (case files w path of
        None \<Rightarrow> (baselineAnalysis, w)
      | Some Dir \<Rightarrow> (baselineAnalysis, w)
      | Some (File bytes) \<Rightarrow>
          (case loadAsync env bytes of
             None \<Rightarrow> (baselineAnalysis, w)
           | Some z \<Rightarrow>
               (let theme = extractThemeData (xmlParser env) z;
                    (extracted, w') = extractImages env z path w;
                    slideStructure = analyzeSlideStructure z
                in (\<lparr>slideCount = st_slideCount slideStructure,
                     imageCount = length extracted,
                     layoutCount = st_layoutCount slideStructure,
                     colors = filter known (colorValues (colorScheme theme)),
                     fonts = filter known [majorFont (fontScheme theme), minorFont (fontScheme theme)],
                     masterLayouts = st_masterLayouts slideStructure,
                     extractedImages = extracted,
                     themeData = theme\<rparr>, w'))))"

section \<open>Specification-side predicates and sample inputs\<close>

text \<open>A string in which \<open>#\<close> occurs at the front or not at all.\<close>

definition leadingOnly :: "string \<Rightarrow> bool" where
  "leadingOnly s = (hashed s \<or> CHR ''#'' \<notin> set s)"

text \<open>Sample inputs used to exercise the definitions.\<close>

definition sampleColors :: ColorScheme where
  "sampleColors =
     \<lparr>background1 = ''#FFFFFF'', text1 = ''#111111'', background2 = ''#E7E6E6'',
      text2 = ''#44546A'', accent1 = ''#AA0000'', accent2 = ''#00BB00'', accent3 = ''#A5A5A5'',
      accent4 = ''#FFC000'', accent5 = ''#4472C4'', accent6 = ''#C5504B'',
      hyperlink = ''#0066CC'', followedHyperlink = ''#954F72''\<rparr>"

definition sampleAnalysis :: TemplateAnalysis where
  "sampleAnalysis =
     \<lparr>slideCount = 3, imageCount = 0, layoutCount = 2, colors = [], fonts = [],
      masterLayouts = [], extractedImages = [],
      themeData = \<lparr>colorScheme = sampleColors,
                   fontScheme = \<lparr>majorFont = ''Georgia'', minorFont = ''Verdana''\<rparr>\<rparr>\<rparr>"

definition sampleSlide :: SlideData where
  "sampleSlide =
     \<lparr>slideNumber = 1, title = ''T'', content = ''Body'', layout = ''weird'',
      speakerNotes = Some ''say this'', imagePrompt = None\<rparr>"

text \<open>The elements the image-and-content builder is expected to place, written out.\<close>

definition imageTitleEl :: "SlideData \<Rightarrow> StyleContext \<Rightarrow> Element" where
  "imageTitleEl sd sc =
     TextEl (title sd)
       \<lparr>tx = 0.5, ty = 0.5, tw = 9, th = 0.8, fontSize = 28,
        fontFace = titleFont sc, color = titleColor sc,
        bold = Some True, align = None, valign = None, fill_color = None, border = None\<rparr>"

definition imageBodyEl :: "SlideData \<Rightarrow> StyleContext \<Rightarrow> Element" where
  "imageBodyEl sd sc =
     TextEl (content sd)
       \<lparr>tx = 0.5, ty = 1.5, tw = 4.5, th = 3.5, fontSize = 16,
        fontFace = bodyFont sc, color = textColor sc,
        bold = None, align = None, valign = Some ''top'', fill_color = None, border = None\<rparr>"

definition placeholderEl :: "StyleContext \<Rightarrow> Element" where
  "placeholderEl sc =
     TextEl placeholderText
       \<lparr>tx = 5.5, ty = 2, tw = 4, th = 2.5, fontSize = 14,
        fontFace = bodyFont sc, color = accentColor sc,
        bold = None, align = Some ''center'', valign = Some ''middle'',
        fill_color = Some ''F3F4F6'', border = Some (1, accentColor sc)\<rparr>"

definition sampleImage :: ExtractedImage where
  "sampleImage =
     \<lparr>image_id = ''u1'', originalName = ''a.png'', filePath = ''up/u1_a.png'', fileType = ''png'',
      slideContext = Some ''template'', description = Some ''Extracted from t.pptx''\<rparr>"

definition sampleImage2 :: ExtractedImage where
  "sampleImage2 =
     \<lparr>image_id = ''u2'', originalName = ''b.gif'', filePath = ''up/u2_b.gif'', fileType = ''gif'',
      slideContext = Some ''template'', description = Some ''Extracted from t.pptx''\<rparr>"

definition sampleDisk :: disk where
  "sampleDisk = [''up/u1_a.png'' \<mapsto> File [1, 2, 3]]"

text \<open>The content of a part that is a file and can be read.\<close>

definition partData :: "Zip \<Rightarrow> string \<Rightarrow> nat list option" where
  "partData z name = (case zip_file z name of None \<Rightarrow> None | Some e \<Rightarrow> entry_data e)"

text \<open>
  The paths the media extractor writes to when it draws its ids from the \<open>k\<close>-th UUID
  on, one per media part.
\<close>

fun targets :: "Env \<Rightarrow> nat \<Rightarrow> string list \<Rightarrow> string list" where
  "targets env k [] = []"
| "targets env k (m # ms) = extractedPath env (randomUUID env k) m # targets env (Suc k) ms"

definition fileSize :: "disk \<Rightarrow> string \<Rightarrow> nat option" where
  "fileSize d p = (case d p of Some (File b) \<Rightarrow> Some (length b) | Some Dir \<Rightarrow> None | None \<Rightarrow> None)"

text \<open>Sample environment, world and containers.\<close>

definition sampleUUID :: "nat \<Rightarrow> string" where
  "sampleUUID n =
     (if n = 0 then ''00000000-0000-4000-8000-000000000000''
      else if n = 1 then ''11111111-1111-4111-8111-111111111111''
      else ''22222222-2222-4222-8222-222222222222'')"

definition mediaZip :: Zip where
  "mediaZip =
     [(''ppt/media/a.png'', \<lparr>entry_dir = False, entry_data = Some [1, 2, 3]\<rparr>),
      (''ppt/slides/slide1.xml'', \<lparr>entry_dir = False, entry_data = Some [60]\<rparr>),
      (''ppt/media/b.GIF'', \<lparr>entry_dir = False, entry_data = Some [7, 8]\<rparr>)]"

definition brokenZip :: Zip where
  "brokenZip =
     [(''ppt/media/a.png'', \<lparr>entry_dir = False, entry_data = Some [1, 2, 3]\<rparr>),
      (''ppt/media/b.GIF'', \<lparr>entry_dir = False, entry_data = None\<rparr>)]"

definition firstOnlyZip :: Zip where
  "firstOnlyZip = [(''ppt/media/a.png'', \<lparr>entry_dir = False, entry_data = Some [1, 2, 3]\<rparr>)]"

definition sampleLoad :: "nat list \<Rightarrow> Zip option" where
  "sampleLoad b = (if b = [80, 75] then Some mediaZip else None)"

definition never :: "string \<Rightarrow> bool" where
  "never p = False"

definition sampleEnv :: Env where
  "sampleEnv =
     \<lparr>xmlParser = parseAs shortTheme, loadAsync = sampleLoad, randomUUID = sampleUUID,
      writeFails = never, imageThrows = never, uploadsDir = ''up''\<rparr>"

definition sampleWorld :: World where
  "sampleWorld =
     \<lparr>files = [''t.pptx'' \<mapsto> File [80, 75], ''bad.pptx'' \<mapsto> File [1, 2]], uuidCount = 0\<rparr>"

section \<open>Document writer\<close>

text \<open>
  The document under construction, as the calls made on the presentation object:
  the metadata, the layouts and slide masters defined, and the slides added. Writing it
  out is the library's \<open>writeFile\<close>; its bytes are the parameter \<open>serialize\<close>.
\<close>

record Placeholder =
  ph_name :: string
  ph_type :: string
  ph_x :: rat
  ph_y :: rat
  ph_w :: rat
  ph_h :: rat
  ph_fontFace :: string
  ph_color :: string
  ph_fontSize :: nat
  ph_text :: string

record SlideMaster =
  master_title :: string
  master_background :: string
  master_objects :: "Placeholder list"

record Document =
  author :: string
  doc_title :: string
  subject :: string
  layouts :: "(string \<times> rat \<times> rat) list"
  masters :: "SlideMaster list"
  doc_slides :: "Slide list"

definition newDocument :: "PresentationData \<Rightarrow> Document" where
  "newDocument presentationData =
     \<lparr>author = ''Auto PPT Generator'', doc_title = pres_title presentationData,
      subject = ''Generated Presentation'', layouts = [], masters = [], doc_slides = []\<rparr>"

definition defineLayout16x9 :: "Document \<Rightarrow> Document" where
  "defineLayout16x9 pptx = pptx\<lparr>layouts := layouts pptx @ [(''LAYOUT_16x9'', 10, 5.625)]\<rparr>"

definition applyExtractedStyling :: "Document \<Rightarrow> TemplateAnalysis \<Rightarrow> Document" where
  "applyExtractedStyling pptx templateAnalysis =
     (let p1 = defineLayout16x9 pptx;
          cols = colorScheme (themeData templateAnalysis);
          fnts = fontScheme (themeData templateAnalysis)
      in p1\<lparr>masters := masters p1 @
           [\<lparr>master_title = ''EXTRACTED_TEMPLATE'',
             master_background = stripHash (background1 cols),
             master_objects =
               [\<lparr>ph_name = ''title'', ph_type = ''title'', ph_x = 0.5, ph_y = 0.5, ph_w = 9,
                 ph_h = 1.5, ph_fontFace = majorFont fnts, ph_color = stripHash (accent1 cols),
                 ph_fontSize = 28, ph_text = ''Title Placeholder''\<rparr>,
                \<lparr>ph_name = ''body'', ph_type = ''body'', ph_x = 0.5, ph_y = 2, ph_w = 9,
                 ph_h = 3, ph_fontFace = minorFont fnts, ph_color = stripHash (text1 cols),
                 ph_fontSize = 16, ph_text = ''Content Placeholder''\<rparr>]\<rparr>]\<rparr>)"

definition applyDefaultStyling :: "Document \<Rightarrow> Document" where
  "applyDefaultStyling pptx = defineLayout16x9 pptx"

text \<open>\<open>title.replace(/[^a-zA-Z0-9]/g, '_')\<close>\<close>

definition isAlnum :: "char \<Rightarrow> bool" where
  "isAlnum c = (c \<in> set lowerLetters \<or> c \<in> set upperLetters \<or> isDigit c)"

definition sanitizeTitle :: "string \<Rightarrow> string" where
  "sanitizeTitle t = map (\<lambda>c. if isAlnum c then c else CHR ''_'') t"

datatype error = GenerationFailure

text \<open>
  \<open>generatePresentation\<close>. The template is analysed only when a non-empty path is given
  and something exists at it. The slides are built against the disk as the analysis left
  it. A failing write of the output file is the one error that reaches the caller.
\<close>

definition templateToUse :: "World \<Rightarrow> string option \<Rightarrow> string option" where
  "templateToUse w templatePath =
     (case templatePath of
        None \<Rightarrow> None
      | Some p \<Rightarrow> if p \<noteq> [] \<and> existsSync (files w) p then Some p else None)"

text \<open>The part after the styling: the slides, the file name and the write.\<close>

definition writePresentation ::
  "(Document \<Rightarrow> nat list) \<Rightarrow> Env \<Rightarrow> PresentationData \<Rightarrow> GenOptions option
   \<Rightarrow> TemplateAnalysis option \<Rightarrow> Document \<Rightarrow> World \<Rightarrow> (error + string \<times> Document) \<times> World" where
  "writePresentation serialize env presentationData options templateAnalysis styled w1 =
     (let built = styled\<lparr>doc_slides := doc_slides styled @
                    map (\<lambda>slideData.
                           createSlide (imageThrows env) (files w1) slideData options templateAnalysis)
                        (slides presentationData)\<rparr>;
          fileName = sanitizeTitle (pres_title presentationData) @ ''_'' @
                     randomUUID env (uuidCount w1) @ ''.pptx'';
          outputPath = pathJoin (uploadsDir env) fileName;
          w2 = w1\<lparr>uuidCount := Suc (uuidCount w1)\<rparr>
      in if writeFails env outputPath then (Inl GenerationFailure, w2)
         else (Inr (outputPath, built),
               w2\<lparr>files := (files w2)(outputPath \<mapsto> File (serialize built))\<rparr>))"

definition generatePresentation ::
  "(Document \<Rightarrow> nat list) \<Rightarrow> Env \<Rightarrow> PresentationData \<Rightarrow> string option \<Rightarrow> GenOptions option
   \<Rightarrow> World \<Rightarrow> (error + string \<times> Document) \<times> World" where
  "generatePresentation serialize env presentationData templatePath options w =
     (let pptx = newDocument presentationData
      in case templateToUse w templatePath of
           Some p \<Rightarrow>
             (let (templateAnalysis, w') = analyzeTemplate env p w
              in writePresentation serialize env presentationData options (Some templateAnalysis)
                   (applyExtractedStyling pptx templateAnalysis) w')
         | None \<Rightarrow>
             writePresentation serialize env presentationData options None
               (applyDefaultStyling pptx) w)"

definition samplePresentation :: PresentationData where
  "samplePresentation =
     \<lparr>pres_title = ''Q3 plan'',
      slides = [sampleSlide, sampleSlide\<lparr>layout := ''image_content'', speakerNotes := None\<rparr>],
      totalSlides = 2, estimatedDuration = ''5 min''\<rparr>"

definition sampleSerialize :: "Document \<Rightarrow> nat list" where
  "sampleSerialize doc = [80, 75, length (doc_slides doc)]"

section \<open>Properties of the string helpers\<close>

lemma removeFirst_absent: "c \<notin> set s \<Longrightarrow> removeFirst c s = s"
  by (induction s) auto

lemma stripHash_leading:
  "leadingOnly s \<Longrightarrow> stripHash s = stripLeadingHash s"
  by (cases s) (auto simp: leadingOnly_def hashed_def stripHash_def stripLeadingHash_def removeFirst_absent)

lemma stripHash_hashed: "stripHash (CHR ''#'' # s) = s"
  by (simp add: stripHash_def)

lemma ceil_half_div: "ceil_half n = (n + 1) div 2"
  unfolding ceil_half_def by linarith

lemma js_split_from_nonempty: "js_split_from sep cur s \<noteq> []"
proof (induction sep cur s rule: js_split_from.induct)
  case (1 sep cur s)
  then show ?case by (subst js_split_from.simps) auto
qed

lemma js_join_Cons: "ps \<noteq> [] \<Longrightarrow> js_join sep (p # ps) = p @ sep @ js_join sep ps"
  by (cases ps) simp_all

lemma js_join_split_from: "sep \<noteq> [] \<Longrightarrow> js_join sep (js_split_from sep cur s) = cur @ s"
proof (induction sep cur s rule: js_split_from.induct)
  case (1 sep cur s)
  show ?case
  proof (cases "s = []")
    case True
    then show ?thesis by (subst js_split_from.simps) simp
  next
    case ne: False
    show ?thesis
    proof (cases "prefix sep s")
      case True
      then obtain r where r: "s = sep @ r" by (auto simp: prefix_def)
      have ih: "js_join sep (js_split_from sep [] (drop (length sep) s)) = drop (length sep) s"
        using "1.IH"(1) [OF ne] True "1.prems" by simp
      have "js_split_from sep cur s = cur # js_split_from sep [] (drop (length sep) s)"
        using ne True "1.prems" by (subst js_split_from.simps) simp
      then show ?thesis
        using ih r by (simp add: js_join_Cons js_split_from_nonempty)
    next
      case False
      have "js_split_from sep cur s = js_split_from sep (cur @ [hd s]) (tl s)"
        using ne False by (subst js_split_from.simps) simp
      then show ?thesis
        using "1.IH"(2) [OF ne] False "1.prems" ne by simp
    qed
  qed
qed

lemma js_join_split: "sep \<noteq> [] \<Longrightarrow> js_join sep (js_split sep s) = s"
  by (simp add: js_split_def js_join_split_from)

lemma sample_split:
  "js_split paraSep (''A'' @ paraSep @ ''B'' @ paraSep @ ''C'' @ paraSep @ ''D'') = [''A'', ''B'', ''C'', ''D'']"
  by code_simp

section \<open>Slide dispatch\<close>

text \<open>
  Claim C6. A slide record whose layout is none of \<open>title_slide\<close>, \<open>content\<close>,
  \<open>two_column\<close>, \<open>image_content\<close>, \<open>conclusion\<close> is built into the same slide as
  the record with its layout replaced by \<open>content\<close>, for the same analysis, options and
  disk.
\<close>

theorem createSlide_unknown_layout:
  "layout sd \<notin> {''title_slide'', ''content'', ''two_column'', ''image_content'', ''conclusion''} \<Longrightarrow>
   createSlide thr d sd opts ta = createSlide thr d (sd\<lparr>layout := ''content''\<rparr>) opts ta"
  by (simp add: createSlide_def Let_def createContentSlide_def)

theorem createSlide_unknown_layout_witness:
  "layout sampleSlide \<notin> {''title_slide'', ''content'', ''two_column'', ''image_content'', ''conclusion''}
   \<and> createSlide (\<lambda>p. False) (\<lambda>p. None) sampleSlide None None
       = createSlide (\<lambda>p. False) (\<lambda>p. None) (sampleSlide\<lparr>layout := ''content''\<rparr>) None None
   \<and> map (\<lambda>e. case e of TextEl t o' \<Rightarrow> t | ImageEl i \<Rightarrow> []) (elements (createSlide (\<lambda>p. False) (\<lambda>p. None) sampleSlide None None))
       = [''T'', ''Body'']"
  using createSlide_unknown_layout [of sampleSlide "\<lambda>p. False" "\<lambda>p. None" None None]
  by (simp add: sampleSlide_def createSlide_def Let_def createContentSlide_def addText_def addNotes_def notesWanted_def)

section \<open>Two-column builder\<close>

text \<open>
  Claim C5. The two-column builder splits the content at the blank-line separator into
  its \<open>n\<close> paragraphs (which, rejoined, are the content again); the left column gets the
  first \<open>ceil(n/2)\<close> paragraphs rejoined with the separator and the right column the
  remaining ones. The content \<open>A\n\nB\n\nC\n\nD\<close> gives left \<open>A\n\nB\<close> and right
  \<open>C\n\nD\<close>.
\<close>

theorem createTwoColumnSlide_ceiling_split:
  "(let ps = js_split paraSep (content sd); k = nat \<lceil>real (length ps) / 2\<rceil> in
      js_join paraSep ps = content sd \<and> ps \<noteq> [] \<and>
      elements (createTwoColumnSlide slide sd sc) =
        elements slide @
        [TextEl (title sd)
           \<lparr>tx = 0.5, ty = 0.3, tw = 9, th = 1, fontSize = 32,
            fontFace = titleFont sc, color = accentColor sc,
            bold = Some True, align = Some ''left'', valign = None,
            fill_color = None, border = None\<rparr>,
         TextEl (js_join paraSep (take k ps)) (columnOpts 0.5 sc),
         TextEl (js_join paraSep (drop k ps)) (columnOpts 5.2 sc)])
   \<and> leftContent (''A'' @ paraSep @ ''B'' @ paraSep @ ''C'' @ paraSep @ ''D'') = ''A'' @ paraSep @ ''B''
   \<and> rightContent (''A'' @ paraSep @ ''B'' @ paraSep @ ''C'' @ paraSep @ ''D'') = ''C'' @ paraSep @ ''D''"
proof -
  have sep: "paraSep \<noteq> []" by (simp add: paraSep_def)
  have a: "js_join paraSep (js_split paraSep (content sd)) = content sd"
    by (rule js_join_split [OF sep])
  have b: "js_split paraSep (content sd) \<noteq> []"
    by (simp add: js_split_def js_split_from_nonempty)
  have c: "elements (createTwoColumnSlide slide sd sc) =
        elements slide @
        [TextEl (title sd)
           \<lparr>tx = 0.5, ty = 0.3, tw = 9, th = 1, fontSize = 32,
            fontFace = titleFont sc, color = accentColor sc,
            bold = Some True, align = Some ''left'', valign = None,
            fill_color = None, border = None\<rparr>,
         TextEl (js_join paraSep (take (nat \<lceil>real (length (js_split paraSep (content sd))) / 2\<rceil>) (js_split paraSep (content sd)))) (columnOpts 0.5 sc),
         TextEl (js_join paraSep (drop (nat \<lceil>real (length (js_split paraSep (content sd))) / 2\<rceil>) (js_split paraSep (content sd)))) (columnOpts 5.2 sc)]"
    by (simp add: createTwoColumnSlide_def Let_def addText_def leftContent_def rightContent_def
        slice_to_def slice_from_def ceil_half_def)
  have d: "leftContent (''A'' @ paraSep @ ''B'' @ paraSep @ ''C'' @ paraSep @ ''D'') = ''A'' @ paraSep @ ''B''"
    by (simp only: leftContent_def Let_def sample_split) (simp add: ceil_half_div slice_to_def)
  have e: "rightContent (''A'' @ paraSep @ ''B'' @ paraSep @ ''C'' @ paraSep @ ''D'') = ''C'' @ paraSep @ ''D''"
    by (simp only: rightContent_def Let_def sample_split) (simp add: ceil_half_div slice_from_def)
  show ?thesis using a b c d e by (simp add: Let_def)
qed

section \<open>Image-and-content builder\<close>

text \<open>
  Claim C9. The image-and-content builder always yields a slide (a throwing
  \<open>addImage\<close> is caught). After the title and the body text it places the first
  extracted image of the analysis, in extraction order, when there is one, its file
  exists on disk and the library accepts it; in every other case, including an absent
  analysis and an analysis without images, it places the styled placeholder box.
\<close>

theorem createImageContentSlide_image_or_placeholder:
  "(selectImageForReuse ta = Some img \<and> existsSync d (filePath img) \<and> \<not> thr (filePath img) \<longrightarrow>
      elements (createImageContentSlide thr d slide sd sc ta) =
        elements slide @ [imageTitleEl sd sc, imageBodyEl sd sc,
          ImageEl \<lparr>img_path = filePath img, ix = 5.5, iy = 2, iw = 4, ih = 2.5\<rparr>])
   \<and> (selectImageForReuse ta = None \<or>
      (\<exists>i. selectImageForReuse ta = Some i \<and> (\<not> existsSync d (filePath i) \<or> thr (filePath i))) \<longrightarrow>
      elements (createImageContentSlide thr d slide sd sc ta) =
        elements slide @ [imageTitleEl sd sc, imageBodyEl sd sc, placeholderEl sc])
   \<and> (selectImageForReuse ta = Some img \<longleftrightarrow>
        (\<exists>a rest. ta = Some a \<and> extractedImages a = img # rest))"
  by (auto simp: createImageContentSlide_def Let_def addText_def addImage_def addImagePlaceholder_def
      imageTitleEl_def imageBodyEl_def placeholderEl_def selectImageForReuse_def
      split: option.splits list.splits)

theorem createImageContentSlide_image_or_placeholder_witness:
  "selectImageForReuse (Some (sampleAnalysis\<lparr>extractedImages := [sampleImage, sampleImage2]\<rparr>)) = Some sampleImage
   \<and> existsSync sampleDisk (filePath sampleImage) \<and> \<not> (\<lambda>p. False) (filePath sampleImage)
   \<and> elements (createImageContentSlide (\<lambda>p. False) sampleDisk
        \<lparr>background = ''FFFFFF'', elements = [], slide_notes = None\<rparr> sampleSlide (getStyleContext None)
        (Some (sampleAnalysis\<lparr>extractedImages := [sampleImage, sampleImage2]\<rparr>))) =
       [imageTitleEl sampleSlide (getStyleContext None), imageBodyEl sampleSlide (getStyleContext None),
        ImageEl \<lparr>img_path = ''up/u1_a.png'', ix = 5.5, iy = 2, iw = 4, ih = 2.5\<rparr>]
   \<and> selectImageForReuse (Some sampleAnalysis) = None
   \<and> elements (createImageContentSlide (\<lambda>p. False) sampleDisk
        \<lparr>background = ''FFFFFF'', elements = [], slide_notes = None\<rparr> sampleSlide (getStyleContext None)
        (Some sampleAnalysis)) =
       [imageTitleEl sampleSlide (getStyleContext None), imageBodyEl sampleSlide (getStyleContext None),
        placeholderEl (getStyleContext None)]"
  using createImageContentSlide_image_or_placeholder
          [of "Some (sampleAnalysis\<lparr>extractedImages := [sampleImage, sampleImage2]\<rparr>)" sampleImage
              sampleDisk "\<lambda>p. False" "\<lparr>background = ''FFFFFF'', elements = [], slide_notes = None\<rparr>"
              sampleSlide "getStyleContext None"]
        createImageContentSlide_image_or_placeholder
          [of "Some sampleAnalysis" sampleImage
              sampleDisk "\<lambda>p. False" "\<lparr>background = ''FFFFFF'', elements = [], slide_notes = None\<rparr>"
              sampleSlide "getStyleContext None"]
  by (simp add: selectImageForReuse_def sampleAnalysis_def sampleImage_def sampleDisk_def existsSync_def)

section \<open>Properties of the theme extractor\<close>

lemma zip_file_absent: "name \<notin> set (zip_keys z) \<Longrightarrow> zip_file z name = None"
proof -
  assume "name \<notin> set (zip_keys z)"
  then have "map_of z name = None"
    by (simp add: zip_keys_def map_of_eq_None_iff)
  then show ?thesis by (simp add: zip_file_def)
qed

lemma hexDigits_upper:
  "list_all (\<lambda>c. isUpperHexDigit (toUpperChar c)) ''0123456789ABCDEFabcdef''"
  by code_simp

lemma toUpperChar_hex: "isHexDigit c \<Longrightarrow> isUpperHexDigit (toUpperChar c)"
  using hexDigits_upper unfolding isHexDigit_def list_all_iff by blast

lemma hex6_hexColor: "hex6 v \<Longrightarrow> hexColor (CHR ''#'' # toUpperCase v)"
  by (simp add: hex6_def hexColor_def toUpperCase_def list_all_iff toUpperChar_hex)



lemma attrStep_hashed: "attrStep arr att = Return c \<Longrightarrow> hashed c"
  by (auto simp: attrStep_def hashed_def split: option.splits if_splits)


lemma directStep_hashed: "directStep element = Return c \<Longrightarrow> hashed c"
  by (auto simp: directStep_def hashed_def split: option.splits if_splits)

lemma nestedLoop_hex: "nestedLoop element keys = Some c \<Longrightarrow> hexColor c"
  by (induction keys) (auto simp: Let_def hex6_hexColor split: option.splits if_splits)

lemma hexColor_hashed: "hexColor c \<Longrightarrow> hashed c"
  by (auto simp: hexColor_def hashed_def split: list.splits)


lemma extractColorValue_hashed: "extractColorValue ce = Some c \<Longrightarrow> hashed c"
  by (auto simp: extractColorValue_def split: option.splits if_splits step.splits
      dest: attrStep_hashed directStep_hashed nestedLoop_hex [THEN hexColor_hashed])



lemma slot_hashed: "hashed dflt \<Longrightarrow> hashed (slot scheme k1 k2 dflt)"
  by (auto simp: slot_def split: option.splits dest: extractColorValue_hashed)


lemma colorsOfScheme_hashed: "allSlots hashed (colorsOfScheme scheme)"
  apply (simp only: allSlots_def colorsOfScheme_def ColorScheme.select_convs)
  apply (intro conjI slot_hashed)
  apply (simp_all add: hashed_def)
  done


lemma extractThemeData_colors:
  "colorScheme (extractThemeData parseXml z) =
     (case clrSchemeOfTemplate parseXml z of
        None \<Rightarrow> defaultColorScheme
      | Some scheme \<Rightarrow> colorsOfScheme scheme)"
  by (simp add: extractThemeData_def clrSchemeOfTemplate_def parseColorScheme_def
      getDefaultThemeData_def split: option.splits)



section \<open>Theme extraction without a theme part\<close>

text \<open>
  Claim C2. For a container whose part listing has no part named
  \<open>ppt/theme/theme1.xml\<close>, the theme extractor returns the default theme data:
  background1 \<open>#FFFFFF\<close>, text1 \<open>#000000\<close>, background2 \<open>#E7E6E6\<close>, text2 \<open>#44546A\<close>,
  accent1 \<open>#5B9BD5\<close>, accent2 \<open>#70AD47\<close>, accent3 \<open>#A5A5A5\<close>, accent4 \<open>#FFC000\<close>,
  accent5 \<open>#4472C4\<close>, accent6 \<open>#C5504B\<close>, hyperlink \<open>#0066CC\<close>, followedHyperlink
  \<open>#954F72\<close>, major and minor font Calibri. The extractor is a total function: no
  error reaches its caller.
\<close>

theorem extractThemeData_no_theme_part:
  "''ppt/theme/theme1.xml'' \<notin> set (zip_keys z) \<Longrightarrow>
    extractThemeData parseXml z =
      \<lparr>colorScheme =
         \<lparr>background1 = ''#FFFFFF'', text1 = ''#000000'', background2 = ''#E7E6E6'',
          text2 = ''#44546A'', accent1 = ''#5B9BD5'', accent2 = ''#70AD47'', accent3 = ''#A5A5A5'',
          accent4 = ''#FFC000'', accent5 = ''#4472C4'', accent6 = ''#C5504B'',
          hyperlink = ''#0066CC'', followedHyperlink = ''#954F72''\<rparr>,
       fontScheme = \<lparr>majorFont = ''Calibri'', minorFont = ''Calibri''\<rparr>\<rparr>"
proof -
  assume "''ppt/theme/theme1.xml'' \<notin> set (zip_keys z)"
  then have "zip_file z themePart = None"
    by (simp add: zip_file_absent themePart_def)
  then show ?thesis
    by (simp add: extractThemeData_def getDefaultThemeData_def defaultColorScheme_def)
qed

theorem extractThemeData_no_theme_part_witness:
  "''ppt/theme/theme1.xml'' \<notin> set (zip_keys [(''ppt/slides/slide1.xml'', \<lparr>entry_dir = False, entry_data = Some [60]\<rparr>)])
   \<and> accent1 (colorScheme (extractThemeData (parseAs shortTheme)
        [(''ppt/slides/slide1.xml'', \<lparr>entry_dir = False, entry_data = Some [60]\<rparr>)])) = ''#5B9BD5''
   \<and> majorFont (fontScheme (extractThemeData (parseAs shortTheme)
        [(''ppt/slides/slide1.xml'', \<lparr>entry_dir = False, entry_data = Some [60]\<rparr>)])) = ''Calibri''"
  using extractThemeData_no_theme_part
          [of "[(''ppt/slides/slide1.xml'', \<lparr>entry_dir = False, entry_data = Some [60]\<rparr>)]" "parseAs shortTheme"]
  by (simp add: zip_keys_def)

section \<open>Colour slots of an extracted theme\<close>




section \<open>Analysis of unreadable template bytes\<close>

text \<open>
  Claim C1. When the bytes of the template file are not a valid zip archive (the archive
  loader rejects them), \<open>analyzeTemplate\<close> raises nothing and returns the baseline
  analysis: 12 slides, 0 images, 5 layouts, colours \<open>#2563EB, #64748B, #10B981, #F59E0B\<close>,
  fonts Calibri and Arial, the five default layout names, no extracted images and the
  baseline theme data; the disk is left as it was.
\<close>

theorem analyzeTemplate_corrupt_baseline:
  "files w path = Some (File bytes) \<and> loadAsync env bytes = None \<longrightarrow>
   analyzeTemplate env path w =
     (\<lparr>slideCount = 12, imageCount = 0, layoutCount = 5,
       colors = [''#2563EB'', ''#64748B'', ''#10B981'', ''#F59E0B''],
       fonts = [''Calibri'', ''Arial''],
       masterLayouts = [''Title Slide'', ''Content'', ''Two Column'', ''Image & Content'', ''Section Header''],
       extractedImages = [],
       themeData =
         \<lparr>colorScheme =
            \<lparr>background1 = ''#FFFFFF'', text1 = ''#000000'', background2 = ''#E7E6E6'',
             text2 = ''#44546A'', accent1 = ''#2563EB'', accent2 = ''#64748B'',
             accent3 = ''#10B981'', accent4 = ''#F59E0B'', accent5 = ''#8B5CF6'',
             accent6 = ''#EF4444'', hyperlink = ''#0066CC'', followedHyperlink = ''#954F72''\<rparr>,
          fontScheme = \<lparr>majorFont = ''Calibri'', minorFont = ''Calibri''\<rparr>\<rparr>\<rparr>, w)"
  by (simp add: analyzeTemplate_def baselineAnalysis_def)

theorem analyzeTemplate_corrupt_baseline_witness:
  "files sampleWorld ''bad.pptx'' = Some (File [1, 2]) \<and> loadAsync sampleEnv [1, 2] = None \<and>
   slideCount (fst (analyzeTemplate sampleEnv ''bad.pptx'' sampleWorld)) = 12 \<and>
   fonts (fst (analyzeTemplate sampleEnv ''bad.pptx'' sampleWorld)) = [''Calibri'', ''Arial''] \<and>
   snd (analyzeTemplate sampleEnv ''bad.pptx'' sampleWorld) = sampleWorld"
  using analyzeTemplate_corrupt_baseline [of sampleWorld "''bad.pptx''" "[1, 2]" sampleEnv]
  by (simp add: sampleWorld_def sampleEnv_def sampleLoad_def)

section \<open>Evaluating the media filter\<close>

lemma mediaFiles_mediaZip: "mediaFiles mediaZip = [''ppt/media/a.png'', ''ppt/media/b.GIF'']"
  by code_simp

lemma mediaFiles_brokenZip: "mediaFiles brokenZip = [''ppt/media/a.png'', ''ppt/media/b.GIF'']"
  by code_simp

section \<open>Properties of the extraction loop\<close>

lemma extractLoop_part_fails:
  assumes "m \<in> set ms" and "zip_file z m = Some e"
    and "entry_data e = None \<or> (\<forall>i. writeFails env (extractedPath env (randomUUID env i) m))"
  shows "fst (extractLoop env z tp ms acc w) = None"
  using assms
proof (induction ms arbitrary: acc w)
  case Nil
  then show ?case by simp
next
  case (Cons a ms)
  show ?case
  proof (cases "a = m")
    case True
    then show ?thesis using Cons.prems by (auto simp: Let_def split: option.splits)
  next
    case False
    then have "m \<in> set ms" using Cons.prems by simp
    then have "\<And>acc w. fst (extractLoop env z tp ms acc w) = None"
      using Cons.IH Cons.prems by blast
    then show ?thesis by (simp add: Let_def split: option.splits)
  qed
qed

lemma extractLoop_length:
  "extractLoop env z tp ms acc w = (Some imgs, w') \<Longrightarrow>
   length imgs = length acc + length (filter (\<lambda>n. zip_file z n \<noteq> None) ms)"
proof (induction ms arbitrary: acc w)
  case Nil
  then show ?case by simp
next
  case (Cons a ms)
  show ?case
  proof (cases "zip_file z a")
    case None
    then show ?thesis using Cons by simp
  next
    case (Some e)
    then obtain d where d: "entry_data e = Some d"
      using Cons.prems by (cases "entry_data e") auto
    have nf: "\<not> writeFails env (extractedPath env (randomUUID env (uuidCount w)) a)"
      using Cons.prems Some d by (auto simp: Let_def split: if_splits)
    show ?thesis
      using Cons.prems Some d nf Cons.IH by (auto simp: Let_def)
  qed
qed

section \<open>Failure of a single media part\<close>

text \<open>
  Claim C7, as stated: a failure on one media part does not abort the batch, and the
  records of the other parts are still returned. The loop of \<open>extractImages\<close> runs
  inside one \<open>try\<close>: with two media parts of which the second cannot be read, the first
  is written to disk, as it is when it is alone in the container, but the list returned
  is empty.
\<close>

theorem extractImages_single_failure_counterexample:
  "fst (extractImages sampleEnv firstOnlyZip ''t.pptx'' sampleWorld) =
     [\<lparr>image_id = ''00000000-0000-4000-8000-000000000000'', originalName = ''a.png'',
       filePath = ''up/extracted_images/00000000-0000-4000-8000-000000000000_a.png'',
       fileType = ''png'', slideContext = Some ''template'',
       description = Some ''Extracted from t.pptx''\<rparr>]
   \<and> partData brokenZip ''ppt/media/a.png'' = Some [1, 2, 3]
   \<and> partData brokenZip ''ppt/media/b.GIF'' = None
   \<and> fst (extractImages sampleEnv brokenZip ''t.pptx'' sampleWorld) = []
   \<and> files (snd (extractImages sampleEnv brokenZip ''t.pptx'' sampleWorld))
        ''up/extracted_images/00000000-0000-4000-8000-000000000000_a.png'' = Some (File [1, 2, 3])"
  by code_simp

text \<open>
  Claim C7, amended. Extraction never raises to its caller (\<open>extractImages\<close> is total).
  When a media part cannot be read, or cannot be written whatever id it gets, the batch is
  abandoned and the list returned is empty. The list is all or nothing: it is empty, or it
  has one record for every media part that is a file.
\<close>

theorem extractImages_all_or_nothing:
  "((\<exists>m e. m \<in> set (mediaFiles z) \<and> zip_file z m = Some e \<and>
        (entry_data e = None \<or> (\<forall>i. writeFails env (extractedPath env (randomUUID env i) m)))) \<longrightarrow>
      fst (extractImages env z tp w) = [])
   \<and> (fst (extractImages env z tp w) = [] \<or>
      length (fst (extractImages env z tp w)) =
        length (filter (\<lambda>n. zip_file z n \<noteq> None) (mediaFiles z)))"
proof -
  obtain r w' where r: "extractLoop env z tp (mediaFiles z) [] w = (r, w')"
    by (cases "extractLoop env z tp (mediaFiles z) [] w") auto
  have a: "fst (extractImages env z tp w) = []"
    if "m \<in> set (mediaFiles z)" "zip_file z m = Some e"
       "entry_data e = None \<or> (\<forall>i. writeFails env (extractedPath env (randomUUID env i) m))"
    for m e
    using extractLoop_part_fails [OF that, of tp "[]" w] r
    by (simp add: extractImages_def)
  have b: "fst (extractImages env z tp w) = [] \<or>
      length (fst (extractImages env z tp w)) =
        length (filter (\<lambda>n. zip_file z n \<noteq> None) (mediaFiles z))"
  proof (cases r)
    case None
    then show ?thesis using r by (simp add: extractImages_def)
  next
    case (Some imgs)
    then show ?thesis using r extractLoop_length [of env z tp "mediaFiles z" "[]" w imgs w']
      by (simp add: extractImages_def)
  qed
  show ?thesis using a b by blast
qed

theorem extractImages_all_or_nothing_witness:
  "''ppt/media/b.GIF'' \<in> set (mediaFiles brokenZip)
   \<and> zip_file brokenZip ''ppt/media/b.GIF'' = Some \<lparr>entry_dir = False, entry_data = None\<rparr>
   \<and> fst (extractImages sampleEnv brokenZip ''t.pptx'' sampleWorld) = []"
proof -
  have m: "''ppt/media/b.GIF'' \<in> set (mediaFiles brokenZip)"
    by (simp only: mediaFiles_brokenZip) simp
  have e: "zip_file brokenZip ''ppt/media/b.GIF'' = Some \<lparr>entry_dir = False, entry_data = None\<rparr>"
    by (simp add: brokenZip_def zip_file_def)
  show ?thesis
    using extractImages_all_or_nothing [of brokenZip sampleEnv "''t.pptx''" sampleWorld] m e
    by auto
qed

section \<open>The extraction loop without failures\<close>

lemma extractedPath_inj:
  "length a = length b \<Longrightarrow> extractedPath env a m = extractedPath env b m' \<Longrightarrow> a = b"
  by (simp add: extractedPath_def pathJoin_def)

lemma targets_elem:
  "t \<in> set (targets env k ms) \<Longrightarrow>
   \<exists>j m. k \<le> j \<and> j < k + length ms \<and> t = extractedPath env (randomUUID env j) m"
proof (induction ms arbitrary: k)
  case Nil
  then show ?case by simp
next
  case (Cons a ms)
  from Cons.prems have "t = extractedPath env (randomUUID env k) a \<or> t \<in> set (targets env (Suc k) ms)"
    by simp
  then show ?case
  proof
    assume "t = extractedPath env (randomUUID env k) a"
    then show ?thesis by (intro exI [of _ k] exI [of _ a]) simp
  next
    assume "t \<in> set (targets env (Suc k) ms)"
    from Cons.IH [OF this] obtain j m where "Suc k \<le> j" "j < Suc k + length ms"
      "t = extractedPath env (randomUUID env j) m" by blast
    then show ?thesis by (intro exI [of _ j] exI [of _ m]) simp
  qed
qed

lemma targets_fresh:
  assumes len: "\<forall>j. k \<le> j \<and> j < k + Suc n \<longrightarrow> length (randomUUID env j) = 36"
    and inj: "\<forall>i j. k \<le> i \<and> i < j \<and> j < k + Suc n \<longrightarrow> randomUUID env i \<noteq> randomUUID env j"
    and n: "length ms = n"
  shows "extractedPath env (randomUUID env k) a \<notin> set (targets env (Suc k) ms)"
proof
  assume "extractedPath env (randomUUID env k) a \<in> set (targets env (Suc k) ms)"
  from targets_elem [OF this] obtain j m where j: "Suc k \<le> j" "j < Suc k + length ms"
    and eq: "extractedPath env (randomUUID env k) a = extractedPath env (randomUUID env j) m"
    by blast
  have "length (randomUUID env k) = length (randomUUID env j)"
    using len j n by simp
  from extractedPath_inj [OF this eq] have "randomUUID env k = randomUUID env j" .
  moreover have "randomUUID env k \<noteq> randomUUID env j"
    using inj j n by simp
  ultimately show False by simp
qed

lemma extractLoop_ok:
  assumes "list_all (\<lambda>n. partData z n \<noteq> None) ms"
    and "list_all (\<lambda>p. \<not> writeFails env p) (targets env (uuidCount w) ms)"
    and "\<forall>j. uuidCount w \<le> j \<and> j < uuidCount w + length ms \<longrightarrow> length (randomUUID env j) = 36"
    and "\<forall>i j. uuidCount w \<le> i \<and> i < j \<and> j < uuidCount w + length ms \<longrightarrow>
           randomUUID env i \<noteq> randomUUID env j"
  shows "\<exists>imgs w'. extractLoop env z tp ms acc w = (Some (acc @ imgs), w') \<and>
           length imgs = length ms \<and>
           (\<forall>i<length ms. filePath (imgs ! i) = targets env (uuidCount w) ms ! i \<and>
                           originalName (imgs ! i) = basename (ms ! i) \<and>
                           (\<exists>d. partData z (ms ! i) = Some d \<and>
                                files w' (targets env (uuidCount w) ms ! i) = Some (File d))) \<and>
           (\<forall>p. p \<notin> set (targets env (uuidCount w) ms) \<longrightarrow> files w' p = files w p)"
  using assms
proof (induction ms arbitrary: acc w)
  case Nil
  then show ?case by simp
next
  case (Cons a ms)
  let ?k = "uuidCount w"
  let ?t = "extractedPath env (randomUUID env ?k) a"
  from Cons.prems(1) obtain e d where e: "zip_file z a = Some e" and d: "entry_data e = Some d"
    by (auto simp: partData_def split: option.splits)
  have pd: "partData z a = Some d" using e d by (simp add: partData_def)
  have nf: "\<not> writeFails env ?t" using Cons.prems(2) by simp
  let ?w1 = "w\<lparr>uuidCount := Suc ?k, files := (files w)(?t \<mapsto> File d)\<rparr>"
  let ?rec = "imageRecord env tp (randomUUID env ?k) a"
  have step: "extractLoop env z tp (a # ms) acc w = extractLoop env z tp ms (acc @ [?rec]) ?w1"
    using e d nf by (simp add: Let_def)
  have k1: "uuidCount ?w1 = Suc ?k" by simp
  have p1: "list_all (\<lambda>n. partData z n \<noteq> None) ms" using Cons.prems(1) by simp
  have p2: "list_all (\<lambda>p. \<not> writeFails env p) (targets env (uuidCount ?w1) ms)"
    using Cons.prems(2) by simp
  have p3: "\<forall>j. uuidCount ?w1 \<le> j \<and> j < uuidCount ?w1 + length ms \<longrightarrow> length (randomUUID env j) = 36"
    using Cons.prems(3) by simp
  have p4: "\<forall>i j. uuidCount ?w1 \<le> i \<and> i < j \<and> j < uuidCount ?w1 + length ms \<longrightarrow>
           randomUUID env i \<noteq> randomUUID env j"
    using Cons.prems(4) by simp
  from Cons.IH [OF p1 p2 p3 p4, of "acc @ [?rec]"]
  obtain imgs w' where
    run: "extractLoop env z tp ms (acc @ [?rec]) ?w1 = (Some ((acc @ [?rec]) @ imgs), w')"
    and len: "length imgs = length ms"
    and each: "\<forall>i<length ms. filePath (imgs ! i) = targets env (Suc ?k) ms ! i \<and>
                           originalName (imgs ! i) = basename (ms ! i) \<and>
                           (\<exists>d. partData z (ms ! i) = Some d \<and>
                                files w' (targets env (Suc ?k) ms ! i) = Some (File d))"
    and frame: "\<forall>p. p \<notin> set (targets env (Suc ?k) ms) \<longrightarrow> files w' p = files ?w1 p"
    by (auto simp: k1)
  have fresh: "?t \<notin> set (targets env (Suc ?k) ms)"
    by (rule targets_fresh [where n = "length ms"]) (use Cons.prems(3,4) in auto)
  have t0: "files w' ?t = Some (File d)"
    using frame fresh by simp
  have res: "extractLoop env z tp (a # ms) acc w = (Some (acc @ (?rec # imgs)), w')"
    using step run by simp
  have all: "\<forall>i<length (a # ms). filePath ((?rec # imgs) ! i) = targets env ?k (a # ms) ! i \<and>
                 originalName ((?rec # imgs) ! i) = basename ((a # ms) ! i) \<and>
                 (\<exists>d. partData z ((a # ms) ! i) = Some d \<and>
                      files w' (targets env ?k (a # ms) ! i) = Some (File d))"
  proof (intro allI impI)
    fix i assume i: "i < length (a # ms)"
    show "filePath ((?rec # imgs) ! i) = targets env ?k (a # ms) ! i \<and>
                 originalName ((?rec # imgs) ! i) = basename ((a # ms) ! i) \<and>
                 (\<exists>d. partData z ((a # ms) ! i) = Some d \<and>
                      files w' (targets env ?k (a # ms) ! i) = Some (File d))"
    proof (cases i)
      case 0
      then show ?thesis using pd t0 by (simp add: imageRecord_def)
    next
      case (Suc j)
      then have "j < length ms" using i by simp
      then show ?thesis using each Suc by simp
    qed
  qed
  have fr: "\<forall>p. p \<notin> set (targets env ?k (a # ms)) \<longrightarrow> files w' p = files w p"
    using frame by simp
  show ?case
    using res len all fr by (intro exI [of _ "?rec # imgs"] exI [of _ w']) simp
qed

section \<open>Media round trip\<close>

text \<open>
  Claim C8. Let a template container hold \<open>N\<close> parts under \<open>ppt/media/\<close> with an
  extension of the allow-list. When the analysis succeeds (the archive loads, every such
  part can be read and every write goes through, the ids drawn being UUIDs, 36 characters
  long and different from one another), the analysis holds exactly \<open>N\<close> extracted
  images, in the order of the parts, and for each of them a file exists on disk at its
  \<open>filePath\<close> whose length in bytes is that of the part it comes from.
\<close>

theorem analyzeTemplate_media_round_trip:
  assumes "files w path = Some (File bytes)" and "loadAsync env bytes = Some z"
    and "list_all (\<lambda>n. partData z n \<noteq> None) (mediaFiles z)"
    and "list_all (\<lambda>p. \<not> writeFails env p) (targets env (uuidCount w) (mediaFiles z))"
    and "\<forall>j. uuidCount w \<le> j \<and> j < uuidCount w + length (mediaFiles z) \<longrightarrow>
           length (randomUUID env j) = 36"
    and "\<forall>i j. uuidCount w \<le> i \<and> i < j \<and> j < uuidCount w + length (mediaFiles z) \<longrightarrow>
           randomUUID env i \<noteq> randomUUID env j"
  shows "length (extractedImages (fst (analyzeTemplate env path w))) = length (mediaFiles z) \<and>
         imageCount (fst (analyzeTemplate env path w)) = length (mediaFiles z) \<and>
         (\<forall>i<length (mediaFiles z).
            originalName (extractedImages (fst (analyzeTemplate env path w)) ! i)
              = basename (mediaFiles z ! i) \<and>
            existsSync (files (snd (analyzeTemplate env path w)))
              (filePath (extractedImages (fst (analyzeTemplate env path w)) ! i)) \<and>
            fileSize (files (snd (analyzeTemplate env path w)))
              (filePath (extractedImages (fst (analyzeTemplate env path w)) ! i))
              = map_option length (partData z (mediaFiles z ! i)))"
proof -
  from extractLoop_ok [OF assms(3-6), of path "[]"]
  obtain imgs w' where
    run: "extractLoop env z path (mediaFiles z) [] w = (Some imgs, w')"
    and len: "length imgs = length (mediaFiles z)"
    and each: "\<forall>i<length (mediaFiles z).
                 filePath (imgs ! i) = targets env (uuidCount w) (mediaFiles z) ! i \<and>
                 originalName (imgs ! i) = basename (mediaFiles z ! i) \<and>
                 (\<exists>d. partData z (mediaFiles z ! i) = Some d \<and>
                      files w' (targets env (uuidCount w) (mediaFiles z) ! i) = Some (File d))"
    by auto
  have ex: "extractImages env z path w = (imgs, w')"
    using run by (simp add: extractImages_def)
  have a: "extractedImages (fst (analyzeTemplate env path w)) = imgs"
    and c: "imageCount (fst (analyzeTemplate env path w)) = length imgs"
    and b: "snd (analyzeTemplate env path w) = w'"
    using assms(1,2) ex by (simp_all add: analyzeTemplate_def Let_def)
  show ?thesis
    unfolding a b c using len each
    by (auto simp: existsSync_def fileSize_def)
qed

theorem analyzeTemplate_media_round_trip_witness:
  "files sampleWorld ''t.pptx'' = Some (File [80, 75]) \<and> loadAsync sampleEnv [80, 75] = Some mediaZip
   \<and> mediaFiles mediaZip = [''ppt/media/a.png'', ''ppt/media/b.GIF'']
   \<and> length (extractedImages (fst (analyzeTemplate sampleEnv ''t.pptx'' sampleWorld))) = 2
   \<and> map originalName (extractedImages (fst (analyzeTemplate sampleEnv ''t.pptx'' sampleWorld)))
       = [''a.png'', ''b.GIF'']
   \<and> fileSize (files (snd (analyzeTemplate sampleEnv ''t.pptx'' sampleWorld)))
        (filePath (extractedImages (fst (analyzeTemplate sampleEnv ''t.pptx'' sampleWorld)) ! 0)) = Some 3
   \<and> fileSize (files (snd (analyzeTemplate sampleEnv ''t.pptx'' sampleWorld)))
        (filePath (extractedImages (fst (analyzeTemplate sampleEnv ''t.pptx'' sampleWorld)) ! 1)) = Some 2"
proof -
  have h1: "files sampleWorld ''t.pptx'' = Some (File [80, 75])"
    by (simp add: sampleWorld_def)
  have h2: "loadAsync sampleEnv [80, 75] = Some mediaZip"
    by (simp add: sampleEnv_def sampleLoad_def)
  have h3: "list_all (\<lambda>n. partData mediaZip n \<noteq> None) (mediaFiles mediaZip)"
    by (simp only: mediaFiles_mediaZip) (simp add: partData_def zip_file_def mediaZip_def)
  have h4: "list_all (\<lambda>p. \<not> writeFails sampleEnv p)
              (targets sampleEnv (uuidCount sampleWorld) (mediaFiles mediaZip))"
    by (simp add: list_all_iff sampleEnv_def never_def)
  have u: "uuidCount sampleWorld = 0" by (simp add: sampleWorld_def)
  have h5: "\<forall>j. uuidCount sampleWorld \<le> j \<and> j < uuidCount sampleWorld + length (mediaFiles mediaZip) \<longrightarrow>
           length (randomUUID sampleEnv j) = 36"
    by (simp add: sampleEnv_def sampleUUID_def)
  have h6: "\<forall>i j. uuidCount sampleWorld \<le> i \<and> i < j \<and>
              j < uuidCount sampleWorld + length (mediaFiles mediaZip) \<longrightarrow>
           randomUUID sampleEnv i \<noteq> randomUUID sampleEnv j"
  proof (intro allI impI)
    fix i j :: nat
    assume "uuidCount sampleWorld \<le> i \<and> i < j \<and>
              j < uuidCount sampleWorld + length (mediaFiles mediaZip)"
    then have "i = 0 \<and> j = 1" by (simp add: u mediaFiles_mediaZip)
    then show "randomUUID sampleEnv i \<noteq> randomUUID sampleEnv j"
      by (simp add: sampleEnv_def sampleUUID_def)
  qed
  note t = analyzeTemplate_media_round_trip [OF h1 h2 h3 h4 h5 h6]
  have n: "map originalName (extractedImages (fst (analyzeTemplate sampleEnv ''t.pptx'' sampleWorld)))
       = [''a.png'', ''b.GIF'']"
    by code_simp
  have s0: "map_option length (partData mediaZip (mediaFiles mediaZip ! 0)) = Some 3"
    by (simp only: mediaFiles_mediaZip) (simp add: partData_def zip_file_def mediaZip_def)
  have s1: "map_option length (partData mediaZip (mediaFiles mediaZip ! 1)) = Some 2"
    by (simp only: mediaFiles_mediaZip) (simp add: partData_def zip_file_def mediaZip_def)
  have l: "length (mediaFiles mediaZip) = 2" by (simp add: mediaFiles_mediaZip)
  have z0: "(0::nat) < length (mediaFiles mediaZip)" and z1: "(1::nat) < length (mediaFiles mediaZip)"
    by (simp_all add: l)
  show ?thesis
    using h1 h2 n t [THEN conjunct1] t [THEN conjunct2, THEN conjunct2, rule_format, OF z0]
      t [THEN conjunct2, THEN conjunct2, rule_format, OF z1] s0 s1 l
    by (simp add: mediaFiles_mediaZip)
qed

section \<open>Properties of the document writer\<close>

lemma background_addText: "background (addText t opts s) = background s"
  by (simp add: addText_def)

lemma background_addNotes: "background (addNotes n s) = background s"
  by (simp add: addNotes_def)

lemma background_placeholder: "background (addImagePlaceholder s sc) = background s"
  by (simp add: addImagePlaceholder_def background_addText)

lemma background_title: "background (createTitleSlide s sd sc) = background s"
  by (simp add: createTitleSlide_def Let_def background_addText)

lemma background_content: "background (createContentSlide s sd sc) = background s"
  by (simp add: createContentSlide_def Let_def background_addText)

lemma background_two_column: "background (createTwoColumnSlide s sd sc) = background s"
  by (simp add: createTwoColumnSlide_def Let_def background_addText)

lemma background_conclusion: "background (createConclusionSlide s sd sc) = background s"
  by (simp add: createConclusionSlide_def Let_def background_addText)

lemma background_image_content:
  "background (createImageContentSlide thr d s sd sc ta) = background s"
  by (simp add: createImageContentSlide_def Let_def background_addText background_placeholder
      addImage_def split: option.splits)

lemma background_createSlide: "background (createSlide thr d sd opts ta) = bgColorOf ta"
  by (simp add: createSlide_def Let_def background_title background_content
      background_two_column background_conclusion background_image_content background_addNotes
      split: option.splits)

lemma generatePresentation_no_template:
  "generatePresentation ser env pd None opts w =
     (if writeFails env (pathJoin (uploadsDir env)
            (sanitizeTitle (pres_title pd) @ ''_'' @ randomUUID env (uuidCount w) @ ''.pptx''))
      then (Inl GenerationFailure, w\<lparr>uuidCount := Suc (uuidCount w)\<rparr>)
      else (Inr (pathJoin (uploadsDir env)
                   (sanitizeTitle (pres_title pd) @ ''_'' @ randomUUID env (uuidCount w) @ ''.pptx''),
                 (applyDefaultStyling (newDocument pd))
                   \<lparr>doc_slides := doc_slides (applyDefaultStyling (newDocument pd)) @
                      map (\<lambda>sd. createSlide (imageThrows env) (files w) sd opts None) (slides pd)\<rparr>),
            w\<lparr>uuidCount := Suc (uuidCount w),
              files := (files w)
                (pathJoin (uploadsDir env)
                   (sanitizeTitle (pres_title pd) @ ''_'' @ randomUUID env (uuidCount w) @ ''.pptx'')
                 \<mapsto> File (ser ((applyDefaultStyling (newDocument pd))
                   \<lparr>doc_slides := doc_slides (applyDefaultStyling (newDocument pd)) @
                      map (\<lambda>sd. createSlide (imageThrows env) (files w) sd opts None) (slides pd)\<rparr>)))\<rparr>))"
  by (simp add: generatePresentation_def templateToUse_def writePresentation_def Let_def)

section \<open>Generation with a template path that does not exist\<close>

text \<open>
  Claim C10. When nothing exists on disk at the template path given, generation gives
  what it gives without a template path: the same result and the same world, for every
  content model, options bag, UUID stream and serialiser. No template is analysed (one
  UUID is drawn, for the output name, and no slide master is defined), and every slide is
  built without an analysis, that is with the fixed default style context and the white
  background.
\<close>

theorem generatePresentation_missing_template:
  assumes "\<not> existsSync (files w) p"
  shows "generatePresentation ser env pd (Some p) opts w = generatePresentation ser env pd None opts w
       \<and> uuidCount (snd (generatePresentation ser env pd (Some p) opts w)) = Suc (uuidCount w)
       \<and> (\<forall>out doc. fst (generatePresentation ser env pd (Some p) opts w) = Inr (out, doc) \<longrightarrow>
            masters doc = [] \<and>
            doc_slides doc =
              map (\<lambda>sd. createSlide (imageThrows env) (files w) sd opts None) (slides pd) \<and>
            (\<forall>s \<in> set (doc_slides doc). background s = ''FFFFFF''))"
proof -
  have u: "templateToUse w (Some p) = None" and n: "templateToUse w None = None"
    using assms by (simp_all add: templateToUse_def)
  have eq: "generatePresentation ser env pd (Some p) opts w = generatePresentation ser env pd None opts w"
    by (simp add: generatePresentation_def u n)
  have bg: "background (createSlide thr d sd opts None) = ''FFFFFF''" for thr d sd
    by (simp add: background_createSlide bgColorOf_def)
  have d0: "masters (applyDefaultStyling (newDocument pd)) = []"
    and d1: "doc_slides (applyDefaultStyling (newDocument pd)) = []"
    by (simp_all add: applyDefaultStyling_def defineLayout16x9_def newDocument_def)
  have rest: "uuidCount (snd (generatePresentation ser env pd None opts w)) = Suc (uuidCount w)
       \<and> (\<forall>out doc. fst (generatePresentation ser env pd None opts w) = Inr (out, doc) \<longrightarrow>
            masters doc = [] \<and>
            doc_slides doc =
              map (\<lambda>sd. createSlide (imageThrows env) (files w) sd opts None) (slides pd) \<and>
            (\<forall>s \<in> set (doc_slides doc). background s = ''FFFFFF''))"
    by (cases "writeFails env (pathJoin (uploadsDir env)
            (sanitizeTitle (pres_title pd) @ ''_'' @ randomUUID env (uuidCount w) @ ''.pptx''))")
       (simp_all add: generatePresentation_no_template d0 d1 bg)
  show ?thesis
    unfolding eq using rest by (intro conjI refl) (rule conjunct1, assumption, rule conjunct2, assumption)
qed

theorem generatePresentation_missing_template_witness:
  "\<not> existsSync (files sampleWorld) ''missing.pptx''
   \<and> generatePresentation sampleSerialize sampleEnv samplePresentation (Some ''missing.pptx'') None sampleWorld
     = generatePresentation sampleSerialize sampleEnv samplePresentation None None sampleWorld
   \<and> map_sum id fst (fst (generatePresentation sampleSerialize sampleEnv samplePresentation
                            (Some ''missing.pptx'') None sampleWorld))
     = Inr ''up/Q3_plan_00000000-0000-4000-8000-000000000000.pptx''"
proof -
  have h: "\<not> existsSync (files sampleWorld) ''missing.pptx''"
    by (simp add: existsSync_def sampleWorld_def)
  have n: "map_sum id fst (fst (generatePresentation sampleSerialize sampleEnv samplePresentation
                            None None sampleWorld))
     = Inr ''up/Q3_plan_00000000-0000-4000-8000-000000000000.pptx''"
    by code_simp
  show ?thesis
    using h n generatePresentation_missing_template
      [OF h, of sampleSerialize sampleEnv samplePresentation None, THEN conjunct1]
    by simp
qed

section \<open>Colours of an analysis\<close>

lemma extractThemeData_hashed: "allSlots hashed (colorScheme (extractThemeData parseXml z))"
proof (cases "clrSchemeOfTemplate parseXml z")
  case None
  then show ?thesis
    by (simp add: extractThemeData_colors allSlots_def defaultColorScheme_def hashed_def)
next
  case (Some scheme)
  then show ?thesis
    by (simp add: extractThemeData_colors colorsOfScheme_hashed)
qed

lemma analyzeTemplate_theme:
  "themeData (fst (analyzeTemplate env path w)) = themeData baselineAnalysis \<or>
   (\<exists>z. themeData (fst (analyzeTemplate env path w)) = extractThemeData (xmlParser env) z)"
proof (cases "files w path")
  case None
  then show ?thesis by (simp add: analyzeTemplate_def)
next
  case (Some node)
  show ?thesis
  proof (cases node)
    case Dir
    then show ?thesis using Some by (simp add: analyzeTemplate_def)
  next
    case (File bytes)
    show ?thesis
    proof (cases "loadAsync env bytes")
      case None
      then show ?thesis using Some File by (simp add: analyzeTemplate_def)
    next
      case z: (Some z)
      have "themeData (fst (analyzeTemplate env path w)) = extractThemeData (xmlParser env) z"
        using Some File z by (simp add: analyzeTemplate_def Let_def split: prod.splits)
      then show ?thesis by blast
    qed
  qed
qed

lemma analyzeTemplate_hashed:
  "allSlots hashed (colorScheme (themeData (fst (analyzeTemplate env path w))))"
proof -
  have "allSlots hashed (colorScheme (themeData baselineAnalysis))"
    by (simp add: baselineAnalysis_def allSlots_def hashed_def)
  then show ?thesis
    using analyzeTemplate_theme [of env path w] extractThemeData_hashed by auto
qed

lemma hashed_leadingOnly: "hashed s \<Longrightarrow> leadingOnly s"
  by (simp add: leadingOnly_def)

section \<open>Style context resolver\<close>

text \<open>
  Claim C4. Without an analysis the style context is the fixed default
  \<open>{titleColor: 2563EB, textColor: 1F2937, accentColor: 64748B, titleFont: Calibri,
  bodyFont: Calibri}\<close>. With an analysis, the title colour is \<open>accent1\<close>, the text
  colour \<open>text1\<close> and the accent colour \<open>accent2\<close> of the analysis's theme, each
  without its leading \<open>#\<close>, and the fonts are the theme's major and minor font. This
  holds for every analysis whose three colours are hex values, with a \<open>#\<close> at the front
  or none at all, and so for every analysis \<open>analyzeTemplate\<close> returns, whatever the
  template and the disk.
\<close>

theorem getStyleContext_resolves:
  "getStyleContext None =
     \<lparr>titleColor = ''2563EB'', textColor = ''1F2937'', accentColor = ''64748B'',
      titleFont = ''Calibri'', bodyFont = ''Calibri''\<rparr>
   \<and> (leadingOnly (accent1 (colorScheme (themeData a))) \<and>
      leadingOnly (text1 (colorScheme (themeData a))) \<and>
      leadingOnly (accent2 (colorScheme (themeData a))) \<longrightarrow>
      getStyleContext (Some a) =
        \<lparr>titleColor = stripLeadingHash (accent1 (colorScheme (themeData a))),
         textColor = stripLeadingHash (text1 (colorScheme (themeData a))),
         accentColor = stripLeadingHash (accent2 (colorScheme (themeData a))),
         titleFont = majorFont (fontScheme (themeData a)),
         bodyFont = minorFont (fontScheme (themeData a))\<rparr>)
   \<and> getStyleContext (Some (fst (analyzeTemplate env path w))) =
        \<lparr>titleColor = stripLeadingHash (accent1 (colorScheme (themeData (fst (analyzeTemplate env path w))))),
         textColor = stripLeadingHash (text1 (colorScheme (themeData (fst (analyzeTemplate env path w))))),
         accentColor = stripLeadingHash (accent2 (colorScheme (themeData (fst (analyzeTemplate env path w))))),
         titleFont = majorFont (fontScheme (themeData (fst (analyzeTemplate env path w)))),
         bodyFont = minorFont (fontScheme (themeData (fst (analyzeTemplate env path w))))\<rparr>"
proof -
  have g: "getStyleContext (Some b) =
        \<lparr>titleColor = stripLeadingHash (accent1 (colorScheme (themeData b))),
         textColor = stripLeadingHash (text1 (colorScheme (themeData b))),
         accentColor = stripLeadingHash (accent2 (colorScheme (themeData b))),
         titleFont = majorFont (fontScheme (themeData b)),
         bodyFont = minorFont (fontScheme (themeData b))\<rparr>"
    if "leadingOnly (accent1 (colorScheme (themeData b)))"
       "leadingOnly (text1 (colorScheme (themeData b)))"
       "leadingOnly (accent2 (colorScheme (themeData b)))" for b
    using that by (simp add: getStyleContext_def Let_def stripHash_leading)
  have n: "getStyleContext None =
     \<lparr>titleColor = ''2563EB'', textColor = ''1F2937'', accentColor = ''64748B'',
      titleFont = ''Calibri'', bodyFont = ''Calibri''\<rparr>"
    by (simp add: getStyleContext_def)
  have h: "allSlots hashed (colorScheme (themeData (fst (analyzeTemplate env path w))))"
    by (rule analyzeTemplate_hashed)
  have r: "getStyleContext (Some (fst (analyzeTemplate env path w))) =
        \<lparr>titleColor = stripLeadingHash (accent1 (colorScheme (themeData (fst (analyzeTemplate env path w))))),
         textColor = stripLeadingHash (text1 (colorScheme (themeData (fst (analyzeTemplate env path w))))),
         accentColor = stripLeadingHash (accent2 (colorScheme (themeData (fst (analyzeTemplate env path w))))),
         titleFont = majorFont (fontScheme (themeData (fst (analyzeTemplate env path w)))),
         bodyFont = minorFont (fontScheme (themeData (fst (analyzeTemplate env path w))))\<rparr>"
    using h by (intro g hashed_leadingOnly) (simp_all add: allSlots_def)
  show ?thesis using n g r by blast
qed

theorem getStyleContext_resolves_witness:
  "leadingOnly (accent1 (colorScheme (themeData sampleAnalysis))) \<and>
   leadingOnly (text1 (colorScheme (themeData sampleAnalysis))) \<and>
   leadingOnly (accent2 (colorScheme (themeData sampleAnalysis))) \<and>
   getStyleContext (Some sampleAnalysis) =
     \<lparr>titleColor = ''AA0000'', textColor = ''111111'', accentColor = ''00BB00'',
      titleFont = ''Georgia'', bodyFont = ''Verdana''\<rparr>"
  using getStyleContext_resolves [of sampleAnalysis]
  by (simp add: sampleAnalysis_def sampleColors_def leadingOnly_def hashed_def stripLeadingHash_def)

end
